theory Spec2Isabelle
  imports Complex_Main
begin

section \<open>The election notebook: tensors, errors and the winner function\<close>

text \<open>
  The notebook \<^verbatim>\<open>tutorial/source/elections.ipynb\<close> computes with \<^verbatim>\<open>torch\<close> tensors of
  single-precision floats. The embedding below takes a one-dimensional tensor to be a list
  of reals and a tensor operation to be the exact operation on reals; where the float
  operation has an outcome that no real number names (a quotient with divisor zero) or
  raises (a shape mismatch, a missing key, an index out of range) the outcome is written
  out as a value of its own.
\<close>

datatype error = KeyError | IndexError | ShapeError

text \<open>\<^verbatim>\<open>(b).float()\<close> on a boolean tensor: \<^verbatim>\<open>True\<close> is 1.0 and \<^verbatim>\<open>False\<close> is 0.0.\<close>

definition to_float :: "bool \<Rightarrow> real" where
  "to_float b = (if b then 1 else 0)"

text \<open>
  \<^verbatim>\<open>a * b\<close> on two one-dimensional tensors: equal lengths multiply pointwise, a tensor of
  length one is broadcast along the other, anything else raises.
\<close>

definition tensor_mul :: "real list \<Rightarrow> real list \<Rightarrow> error + real list" where
  "tensor_mul xs ys =
     (if length xs = length ys then Inr (map2 (*) xs ys)
      else if length xs = 1 then Inr (map (\<lambda>y. hd xs * y) ys)
      else if length ys = 1 then Inr (map (\<lambda>x. x * hd ys) xs)
      else Inl ShapeError)"

text \<open>
  The quotient of two float scalars. A divisor zero raises nothing: the quotient is an
  infinity (by the sign of the dividend; the zero of a sum of electoral-college votes is
  the positive one) or not-a-number.
\<close>

datatype quotient = Finite real | PosInf | NegInf | NaN

definition float_div :: "real \<Rightarrow> real \<Rightarrow> quotient" where
  "float_div a b =
     (if b \<noteq> 0 then Finite (a / b)
      else if 0 < a then PosInf
      else if a < 0 then NegInf
      else NaN)"

text \<open>\<^verbatim>\<open>q > c\<close> for a float quotient: every comparison with not-a-number is false.\<close>

fun quotient_gt :: "quotient \<Rightarrow> real \<Rightarrow> bool" where
  "quotient_gt (Finite x) c = (c < x)"
| "quotient_gt PosInf c = True"
| "quotient_gt NegInf c = False"
| "quotient_gt NaN c = False"

text \<open>
  \<^verbatim>\<open>
  def election_winner(alpha):
      dem_win_state = (alpha > 0.).float()
      dem_electoral_college_votes = ec_votes_tensor * dem_win_state
      w = (dem_electoral_college_votes.sum(-1) / ec_votes_tensor.sum(-1) > .5).float()
      return w
  \<close>
  \<^verbatim>\<open>ec_votes_tensor\<close> is a global read from a data file; it is the first argument here.
\<close>

definition dem_win_state :: "real list \<Rightarrow> real list" where
  "dem_win_state alpha = map (\<lambda>a. to_float (0 < a)) alpha"

definition dem_electoral_college_votes :: "real list \<Rightarrow> real list \<Rightarrow> error + real list" where
  "dem_electoral_college_votes ec_votes_tensor alpha =
     tensor_mul ec_votes_tensor (dem_win_state alpha)"

definition election_winner :: "real list \<Rightarrow> real list \<Rightarrow> error + real" where
  "election_winner ec_votes_tensor alpha =
     (case dem_electoral_college_votes ec_votes_tensor alpha of
        Inl e \<Rightarrow> Inl e
      | Inr dem \<Rightarrow>
          Inr (to_float (quotient_gt (float_div (sum_list dem) (sum_list ec_votes_tensor)) (1 / 2))))"

section \<open>The candidate polling allocations\<close>

text \<open>
  \<^verbatim>\<open>
  poll_in_florida = torch.zeros(51)
  poll_in_florida[9] = 1000
  poll_in_dc = torch.zeros(51)
  poll_in_dc[8] = 1000
  uniform_poll = (1000 // 51) * torch.ones(51)
  \<close>
  \<^verbatim>\<open>//\<close> is Python's floor division on integers.
\<close>

definition zeros :: "nat \<Rightarrow> real list" where
  "zeros n = replicate n 0"

definition ones :: "nat \<Rightarrow> real list" where
  "ones n = replicate n 1"

definition poll_in_florida :: "real list" where
  "poll_in_florida = (zeros 51)[9 := 1000]"

definition poll_in_dc :: "real list" where
  "poll_in_dc = (zeros 51)[8 := 1000]"

definition uniform_poll :: "real list" where
  "uniform_poll = map (\<lambda>x. real_of_int (1000 div 51) * x) (ones 51)"

section \<open>Election results as frames and the prior\<close>

text \<open>
  A \<^verbatim>\<open>pandas\<close> data frame is the ordered list of its labelled columns, each column holding
  one number per state. \<^verbatim>\<open>frame.values[..., k]\<close> is the \<open>k\<close>-th column and raises when the
  frame has no such column. The historical frame labels its columns by (year, party); the
  test frame of the 2016 election by party.
\<close>

type_synonym 'l frame = "('l \<times> real list) list"

definition tensor_column :: "'l frame \<Rightarrow> nat \<Rightarrow> error + real list" where
  "tensor_column fr k = (if k < length fr then Inr (snd (fr ! k)) else Inl IndexError)"

text \<open>
  \<^verbatim>\<open>torch.log(d / r)\<close>, entry by entry. Vote counts are positive, and there the real
  logarithm is the one the notebook computes; on other numbers the float operations give
  infinities and not-a-number, which the real logarithm does not follow.
\<close>

definition log_ratio :: "real list \<Rightarrow> real list \<Rightarrow> real list" where
  "log_ratio ds rs = map2 (\<lambda>d r. ln (d / r)) ds rs"

text \<open>
  \<^verbatim>\<open>torch.log(results[..., 0] / results[..., 1])\<close>, used for the 2012 and for the 2016
  results.
\<close>

definition two_party_logits :: "'l frame \<Rightarrow> error + real list" where
  "two_party_logits results =
     (case tensor_column results 0 of
        Inl e \<Rightarrow> Inl e
      | Inr d \<Rightarrow> (case tensor_column results 1 of Inl e \<Rightarrow> Inl e | Inr r \<Rightarrow> Inr (log_ratio d r)))"

text \<open>
  \<^verbatim>\<open>frame[2012]\<close>: the columns whose first label is the year, labelled by party; a year
  with no column raises.
\<close>

definition frame_year :: "(nat \<times> string) frame \<Rightarrow> nat \<Rightarrow> error + string frame" where
  "frame_year fr year =
     (case filter (\<lambda>c. fst (fst c) = year) fr of
        [] \<Rightarrow> Inl KeyError
      | c # cs \<Rightarrow> Inr (map (\<lambda>c. (snd (fst c), snd c)) (c # cs)))"

text \<open>
  \<^verbatim>\<open>
  results_2012 = torch.tensor(frame[2012].values, dtype=torch.float)
  prior_mean = torch.log(results_2012[..., 0] / results_2012[..., 1])
  \<close>
\<close>

definition prior_mean :: "(nat \<times> string) frame \<Rightarrow> error + real list" where
  "prior_mean fr =
     (case frame_year fr 2012 of
        Inl e \<Rightarrow> Inl e
      | Inr results_2012 \<Rightarrow> two_party_logits results_2012)"

text \<open>
  \<^verbatim>\<open>
  idx = 2 * torch.arange(10)
  as_tensor = torch.tensor(frame.values, dtype=torch.float)
  logits = torch.log(as_tensor[..., idx] / as_tensor[..., idx + 1]).transpose(0, 1)
  \<close>
  Indexing with a list of positions raises when one of them is out of range. The result of
  \<open>logits\<close> has one row per election (the transpose), each row with one entry per state.
\<close>

definition idx :: "nat list" where
  "idx = map (\<lambda>k. 2 * k) [0..<10]"

definition tensor_columns :: "'l frame \<Rightarrow> nat list \<Rightarrow> error + real list list" where
  "tensor_columns fr ks =
     (if list_all (\<lambda>k. k < length fr) ks then Inr (map (\<lambda>k. snd (fr ! k)) ks)
      else Inl IndexError)"

definition logits :: "'l frame \<Rightarrow> error + real list list" where
  "logits fr =
     (case tensor_columns fr idx of
        Inl e \<Rightarrow> Inl e
      | Inr ds \<Rightarrow>
          (case tensor_columns fr (map (\<lambda>k. k + 1) idx) of
             Inl e \<Rightarrow> Inl e
           | Inr rs \<Rightarrow> Inr (map2 log_ratio ds rs)))"

text \<open>
  \<^verbatim>\<open>
  mean = logits.mean(0)
  sample_covariance = (1/(logits.shape[0] - 1)) * (
      (logits.unsqueeze(-1) - mean) * (logits.unsqueeze(-2) - mean)
  ).sum(0)
  prior_covariance = sample_covariance + 0.01 * torch.eye(sample_covariance.shape[0])
  \<close>
  Broadcasting aligns \<open>mean\<close> with the last axis of both factors: entry \<open>(e, i, j)\<close> of the
  product is \<open>(logits[e, i] - mean[j]) * (logits[e, j] - mean[j])\<close>, and that is what
  \<open>sample_covariance\<close> sums over the elections \<open>e\<close>.
\<close>

definition row_length :: "real list list \<Rightarrow> nat" where
  "row_length ls = (case ls of [] \<Rightarrow> 0 | l # _ \<Rightarrow> length l)"

definition tensor_mean0 :: "real list list \<Rightarrow> real list" where
  "tensor_mean0 ls =
     map (\<lambda>i. (\<Sum>l\<leftarrow>ls. l ! i) / real (length ls)) [0..<row_length ls]"

definition sample_covariance :: "real list list \<Rightarrow> real list list" where
  "sample_covariance ls =
     (let mean = tensor_mean0 ls; n = row_length ls
      in map (\<lambda>i. map (\<lambda>j.
            (1 / (real (length ls) - 1)) *
            (\<Sum>l\<leftarrow>ls. (l ! i - mean ! j) * (l ! j - mean ! j))) [0..<n]) [0..<n])"

definition eye :: "nat \<Rightarrow> real list list" where
  "eye n = map (\<lambda>i. map (\<lambda>j. if i = j then 1 else 0) [0..<n]) [0..<n]"

definition matrix_scale :: "real \<Rightarrow> real list list \<Rightarrow> real list list" where
  "matrix_scale c m = map (map (\<lambda>x. c * x)) m"

definition matrix_add :: "real list list \<Rightarrow> real list list \<Rightarrow> real list list" where
  "matrix_add a b = map2 (map2 (+)) a b"

definition prior_covariance :: "'l frame \<Rightarrow> error + real list list" where
  "prior_covariance fr =
     (case logits fr of
        Inl e \<Rightarrow> Inl e
      | Inr ls \<Rightarrow>
          Inr (matrix_add (sample_covariance ls)
                 (matrix_scale (1 / 100) (eye (length (sample_covariance ls))))))"

subsection \<open>The sample moments as statistics defines them\<close>

text \<open>
  The mean of state \<open>i\<close> over the rows of a data matrix, and the unbiased covariance of the
  states \<open>i\<close> and \<open>j\<close>, each factor centred at its own state's mean. \<open>claimed_prior_mean\<close>
  and \<open>claimed_prior_covariance\<close> are the prior that would consist of exactly these
  moments of the ten logit vectors.
\<close>

definition empirical_mean :: "real list list \<Rightarrow> nat \<Rightarrow> real" where
  "empirical_mean ls i = (\<Sum>l\<leftarrow>ls. l ! i) / real (length ls)"

definition empirical_covariance :: "real list list \<Rightarrow> nat \<Rightarrow> nat \<Rightarrow> real" where
  "empirical_covariance ls i j =
     (\<Sum>l\<leftarrow>ls. (l ! i - empirical_mean ls i) * (l ! j - empirical_mean ls j))
       / (real (length ls) - 1)"

definition claimed_prior_mean :: "'l frame \<Rightarrow> error + real list" where
  "claimed_prior_mean fr =
     (case logits fr of
        Inl e \<Rightarrow> Inl e
      | Inr ls \<Rightarrow> Inr (map (empirical_mean ls) [0..<row_length ls]))"

definition claimed_prior_covariance :: "'l frame \<Rightarrow> error + real list list" where
  "claimed_prior_covariance fr =
     (case logits fr of
        Inl e \<Rightarrow> Inl e
      | Inr ls \<Rightarrow>
          Inr (map (\<lambda>i. map (empirical_covariance ls i) [0..<row_length ls]) [0..<row_length ls]))"

section \<open>The generative model\<close>

definition sigmoid :: "real \<Rightarrow> real" where
  "sigmoid x = 1 / (1 + exp (- x))"

definition logit :: "real \<Rightarrow> real" where
  "logit p = ln (p / (1 - p))"

text \<open>
  The distribution objects the notebook builds, as descriptions of what they were built
  from: \<open>Binomial n l\<close> stands for \<^verbatim>\<open>dist.Binomial(n, logits=l).to_event(1)\<close>, one
  independent binomial per entry. A binomial given by logits has the sigmoid of each logit
  as its success probability.
\<close>

datatype dist =
    MultivariateNormal "real list" "real list list"
  | Binomial "real list" "real list"
  | Delta real

fun binomial_probs :: "dist \<Rightarrow> real list" where
  "binomial_probs (Binomial total_count logit_values) = map sigmoid logit_values"
| "binomial_probs _ = []"

text \<open>
  \<^verbatim>\<open>pyro.sample(name, d)\<close> hands the site's name and distribution to the effect handlers
  in force, which decide the value: drawn from \<open>d\<close>, or fixed by a conditioning handler.
  A handler is a function of the name, the distribution and the state of the random
  generator; it returns the value (a tensor, as the list of its entries) and the new state.
  A run of the model also yields its trace: the sites in order, each with its distribution
  and value.
\<close>

type_synonym 'g handler = "string \<Rightarrow> dist \<Rightarrow> 'g \<Rightarrow> real list \<times> 'g"

type_synonym site = "string \<times> dist \<times> real list"

definition broadcastable :: "'a list \<Rightarrow> 'b list \<Rightarrow> bool" where
  "broadcastable xs ys = (length xs = length ys \<or> length xs = 1 \<or> length ys = 1)"

text \<open>
  \<^verbatim>\<open>
  def model(polling_allocation):
      with pyro.plate_stack("plate_stack", polling_allocation.shape[:-1]):
          alpha = pyro.sample("alpha", dist.MultivariateNormal(
              prior_mean, covariance_matrix=prior_covariance))
          poll_results = pyro.sample("y", dist.Binomial(
              polling_allocation, logits=alpha).to_event(1))
          dem_win = election_winner(alpha)
          pyro.sample("w", dist.Delta(dem_win))
          return poll_results, dem_win, alpha
  \<close>
  for one allocation vector (no batch dimensions, so the plate stack is empty). The globals
  are arguments: \<^verbatim>\<open>prior_mean\<close> is \<open>loc\<close>, \<^verbatim>\<open>prior_covariance\<close> is \<open>covariance_matrix\<close>,
  and \<open>ec_votes_tensor\<close> keeps its name. Building the binomial raises when the allocation
  and \<open>alpha\<close> cannot be broadcast together.
\<close>

definition model ::
  "real list \<Rightarrow> real list list \<Rightarrow> real list \<Rightarrow> 'g handler \<Rightarrow> real list \<Rightarrow> 'g
   \<Rightarrow> error + ((real list \<times> real \<times> real list) \<times> site list \<times> 'g)" where
  "model loc covariance_matrix ec_votes_tensor sample polling_allocation g =
     (case sample ''alpha'' (MultivariateNormal loc covariance_matrix) g of (alpha, g1) \<Rightarrow>
        if \<not> broadcastable polling_allocation alpha then Inl ShapeError
        else
          (case sample ''y'' (Binomial polling_allocation alpha) g1 of (poll_results, g2) \<Rightarrow>
             (case election_winner ec_votes_tensor alpha of
                Inl e \<Rightarrow> Inl e
              | Inr dem_win \<Rightarrow>
                  (case sample ''w'' (Delta dem_win) g2 of (w, g3) \<Rightarrow>
                     Inr ((poll_results, dem_win, alpha),
                          [(''alpha'', MultivariateNormal loc covariance_matrix, alpha),
                           (''y'', Binomial polling_allocation alpha, poll_results),
                           (''w'', Delta dem_win, w)],
                          g3)))))"

text \<open>
  \<^verbatim>\<open>pyro.condition(model, data={"alpha": true_alpha})\<close>: a site named in \<open>data\<close> takes the
  given value and draws nothing; every other site is left to the handler below.
\<close>

definition condition :: "(string \<rightharpoonup> real list) \<Rightarrow> 'g handler \<Rightarrow> 'g handler" where
  "condition data sample name d g =
     (case data name of Some v \<Rightarrow> (v, g) | None \<Rightarrow> sample name d g)"

definition conditioned_model ::
  "real list \<Rightarrow> real list list \<Rightarrow> real list \<Rightarrow> real list \<Rightarrow> 'g handler \<Rightarrow> real list \<Rightarrow> 'g
   \<Rightarrow> error + ((real list \<times> real \<times> real list) \<times> site list \<times> 'g)" where
  "conditioned_model loc covariance_matrix ec_votes_tensor alpha_data sample =
     model loc covariance_matrix ec_votes_tensor (condition [''alpha'' \<mapsto> alpha_data] sample)"

section \<open>The classifier\<close>

text \<open>
  \<^verbatim>\<open>
  class OutcomePredictor(nn.Module):
      def __init__(self):
          super().__init__()
          self.h1 = nn.Linear(51, 64)
          self.h2 = nn.Linear(64, 64)
          self.h3 = nn.Linear(64, 1)

      def compute_dem_probability(self, y):
          z = nn.functional.relu(self.h1(y))
          z = nn.functional.relu(self.h2(z))
          return self.h3(z)
  \<close>
  A linear layer holds a weight matrix with one row per output and a bias; applied to an
  input whose length is not its \<open>in_features\<close> it raises. \<open>outcome_predictor_init\<close> says
  that the three layers have the shapes \<^verbatim>\<open>__init__\<close> gives them, which training keeps.
\<close>

record linear =
  in_features :: nat
  out_features :: nat
  weight :: "real list list"
  bias :: "real list"

definition dot :: "real list \<Rightarrow> real list \<Rightarrow> real" where
  "dot xs ys = sum_list (map2 (*) xs ys)"

definition linear_apply :: "linear \<Rightarrow> real list \<Rightarrow> error + real list" where
  "linear_apply l x =
     (if length x = in_features l
      then Inr (map2 (\<lambda>row b. dot row x + b) (weight l) (bias l))
      else Inl ShapeError)"

definition relu :: "real \<Rightarrow> real" where
  "relu x = max 0 x"

record outcome_predictor =
  h1 :: linear
  h2 :: linear
  h3 :: linear

definition linear_shape :: "nat \<Rightarrow> nat \<Rightarrow> linear \<Rightarrow> bool" where
  "linear_shape i o' l =
     (in_features l = i \<and> out_features l = o' \<and> length (weight l) = o'
      \<and> list_all (\<lambda>row. length row = i) (weight l) \<and> length (bias l) = o')"

definition outcome_predictor_init :: "outcome_predictor \<Rightarrow> bool" where
  "outcome_predictor_init net =
     (linear_shape 51 64 (h1 net) \<and> linear_shape 64 64 (h2 net) \<and> linear_shape 64 1 (h3 net))"

definition compute_dem_probability :: "outcome_predictor \<Rightarrow> real list \<Rightarrow> error + real list" where
  "compute_dem_probability net y =
     (case linear_apply (h1 net) y of
        Inl e \<Rightarrow> Inl e
      | Inr z1 \<Rightarrow>
          (case linear_apply (h2 net) (map relu z1) of
             Inl e \<Rightarrow> Inl e
           | Inr z2 \<Rightarrow> linear_apply (h3 net) (map relu z2)))"

text \<open>
  \<^verbatim>\<open>
  q_w = torch.sigmoid(guide.compute_dem_probability(y).squeeze().detach())
  print("Posterior probability of Democrat win", q_w.item())
  \<close>
  \<^verbatim>\<open>squeeze\<close> and \<^verbatim>\<open>detach\<close> leave the entries as they are; \<^verbatim>\<open>item\<close> raises unless the
  tensor has exactly one entry.
\<close>

definition q_w :: "outcome_predictor \<Rightarrow> real list \<Rightarrow> error + real list" where
  "q_w guide y =
     (case compute_dem_probability guide y of Inl e \<Rightarrow> Inl e | Inr z \<Rightarrow> Inr (map sigmoid z))"

fun item :: "real list \<Rightarrow> error + real" where
  "item [x] = Inr x"
| "item _ = Inl ShapeError"

definition posterior_probability :: "outcome_predictor \<Rightarrow> real list \<Rightarrow> error + real" where
  "posterior_probability guide y =
     (case q_w guide y of Inl e \<Rightarrow> Inl e | Inr q \<Rightarrow> item q)"

text \<open>
  The network as a formula: 51 inputs, two hidden layers of 64 rectified units, one linear
  output.
\<close>

definition mlp_logit :: "outcome_predictor \<Rightarrow> real list \<Rightarrow> real" where
  "mlp_logit net y =
     bias (h3 net) ! 0 + (\<Sum>k < 64. weight (h3 net) ! 0 ! k *
        max 0 (bias (h2 net) ! k + (\<Sum>j < 64. weight (h2 net) ! k ! j *
           max 0 (bias (h1 net) ! j + (\<Sum>i < 51. weight (h1 net) ! j ! i * y ! i)))))"

section \<open>Scoring the candidate allocations\<close>

text \<open>
  \<^verbatim>\<open>
  poll_strategies = OrderedDict([("Florida", poll_in_florida),
                                 ("DC", poll_in_dc),
                                 ("Uniform", uniform_poll),
                                 ("Swing", swing_poll)])
  \<close>
  The dictionary is the list of its items in insertion order. \<open>swing_poll\<close> is computed from
  simulated prior draws and is an argument.
\<close>

definition poll_strategies :: "real list \<Rightarrow> (string \<times> real list) list" where
  "poll_strategies swing_poll =
     [(''Florida'', poll_in_florida), (''DC'', poll_in_dc),
      (''Uniform'', uniform_poll), (''Swing'', swing_poll)]"

text \<open>
  \<^verbatim>\<open>prior_entropy = dist.Bernoulli(prior_w_prob).entropy()\<close>, at its mathematical value.
\<close>

definition bernoulli_entropy :: "real \<Rightarrow> real" where
  "bernoulli_entropy p = - (p * ln p + (1 - p) * ln (1 - p))"

text \<open>
  \<^verbatim>\<open>
  eigs = {}
  best_strategy, best_eig = None, 0
  for strategy, allocation in poll_strategies.items():
      guide = OutcomePredictor()
      pyro.clear_param_store()
      ape = posterior_eig(model, allocation, "y", "w", 10, 12500, guide,
                          Adam({"lr": 0.001}), eig=False, final_num_samples=10000)
      eigs[strategy] = prior_entropy - ape
      if eigs[strategy] > best_eig:
          best_strategy, best_eig = strategy, eigs[strategy]
  \<close>
  \<^verbatim>\<open>posterior_eig\<close> is the library's estimator: it trains the fresh guide on draws of the
  model and returns a number. Here it is a function of the allocation, of the \<^verbatim>\<open>eig\<close> flag
  and of the state of the random generator, returning the number and the new state.
  \<open>best_strategy\<close> is an option: \<open>None\<close> is Python's \<^verbatim>\<open>None\<close>. The scores are real
  numbers; a score that is not a number is outside this model.
\<close>

type_synonym 'g estimator = "real list \<Rightarrow> bool \<Rightarrow> 'g \<Rightarrow> real \<times> 'g"

record 'g loop_state =
  eigs :: "string \<rightharpoonup> real"
  best_strategy :: "string option"
  best_eig :: real
  rng :: 'g

definition initial_state :: "'g \<Rightarrow> 'g loop_state" where
  "initial_state g = \<lparr>eigs = Map.empty, best_strategy = None, best_eig = 0, rng = g\<rparr>"

definition loop_body ::
  "'g estimator \<Rightarrow> real \<Rightarrow> 'g loop_state \<Rightarrow> string \<times> real list \<Rightarrow> 'g loop_state" where
  "loop_body posterior_eig prior_entropy st entry =
     (case entry of (strategy, allocation) \<Rightarrow>
        (case posterior_eig allocation False (rng st) of (ape, g') \<Rightarrow>
           let st1 = st\<lparr>eigs := (eigs st)(strategy \<mapsto> prior_entropy - ape), rng := g'\<rparr>
           in if best_eig st1 < the (eigs st1 strategy)
              then st1\<lparr>best_strategy := Some strategy, best_eig := the (eigs st1 strategy)\<rparr>
              else st1))"

definition evaluate_strategies ::
  "'g estimator \<Rightarrow> real \<Rightarrow> (string \<times> real list) list \<Rightarrow> 'g \<Rightarrow> 'g loop_state" where
  "evaluate_strategies posterior_eig prior_entropy strategies g =
     foldl (loop_body posterior_eig prior_entropy) (initial_state g) strategies"

text \<open>
  \<^verbatim>\<open>best_allocation = poll_strategies[best_strategy]\<close>: a key the dictionary does not
  hold, \<^verbatim>\<open>None\<close> among them, raises.
\<close>

definition best_allocation :: "(string \<times> real list) list \<Rightarrow> string option \<Rightarrow> error + real list" where
  "best_allocation strategies best =
     (case best of
        None \<Rightarrow> Inl KeyError
      | Some s \<Rightarrow> (case map_of strategies s of None \<Rightarrow> Inl KeyError | Some a \<Rightarrow> Inr a))"

subsection \<open>What the loop computes, as lists\<close>

text \<open>
  \<open>apes\<close> lists the numbers the estimator returns on the successive allocations, called
  with \<^verbatim>\<open>eig=False\<close> and with the generator state threaded through; \<open>scores\<close> pairs each
  strategy with the prior entropy minus that number; \<open>pick\<close> is the running choice of the
  loop over such a list.
\<close>

fun apes :: "'g estimator \<Rightarrow> real list list \<Rightarrow> 'g \<Rightarrow> real list" where
  "apes est [] g = []"
| "apes est (a # as) g = (case est a False g of (v, g') \<Rightarrow> v # apes est as g')"

definition scores ::
  "'g estimator \<Rightarrow> real \<Rightarrow> (string \<times> real list) list \<Rightarrow> 'g \<Rightarrow> (string \<times> real) list" where
  "scores est pe xs g = zip (map fst xs) (map (\<lambda>v. pe - v) (apes est (map snd xs) g))"

fun pick :: "(string \<times> real) list \<Rightarrow> string option \<times> real \<Rightarrow> string option \<times> real" where
  "pick [] b = b"
| "pick ((k, s) # xs) (b, be) = pick xs (if be < s then (Some k, s) else (b, be))"

section \<open>Running the experiment\<close>

text \<open>
  \<^verbatim>\<open>
  best_allocation = poll_strategies[best_strategy]
  ...
  results_2016 = torch.tensor(test_data.values, dtype=torch.float)
  true_alpha = torch.log(results_2016[..., 0] / results_2016[..., 1])
  conditioned_model = pyro.condition(model, data={"alpha": true_alpha})
  y, _, _ = conditioned_model(best_allocation)
  \<close>
\<close>

definition true_alpha :: "'l frame \<Rightarrow> error + real list" where
  "true_alpha test_data = two_party_logits test_data"

definition simulated_poll ::
  "real list \<Rightarrow> real list list \<Rightarrow> real list \<Rightarrow> (string \<times> real list) list \<Rightarrow> string option
   \<Rightarrow> 'l frame \<Rightarrow> 'g handler \<Rightarrow> 'g
   \<Rightarrow> error + ((real list \<times> real \<times> real list) \<times> site list \<times> 'g)" where
  "simulated_poll loc covariance_matrix ec_votes_tensor strategies best test_data sample g =
     (case best_allocation strategies best of
        Inl e \<Rightarrow> Inl e
      | Inr allocation \<Rightarrow>
          (case true_alpha test_data of
             Inl e \<Rightarrow> Inl e
           | Inr ta \<Rightarrow>
               conditioned_model loc covariance_matrix ec_votes_tensor ta sample allocation g))"

section \<open>Concrete inputs\<close>

text \<open>
  Stand-ins for what the notebook draws at random or downloads, on which the definitions
  above can be run: an estimator that returns the same number at every call, one that
  replays a list of numbers, a handler that returns given values for \<open>alpha\<close> and \<open>y\<close>, a
  classifier with the shapes of \<open>OutcomePredictor\<close>, a historical frame of ten elections in
  one state, and a test frame of two states.
\<close>

definition constant_estimator :: "real \<Rightarrow> unit estimator" where
  "constant_estimator v allocation eig g = (v, g)"

definition replay_estimator :: "real list \<Rightarrow> nat estimator" where
  "replay_estimator vs allocation eig n = (vs ! n, Suc n)"

definition fixed_sample :: "real list \<Rightarrow> real list \<Rightarrow> unit handler" where
  "fixed_sample alpha y name d g =
     (if name = ''alpha'' then alpha
      else if name = ''y'' then y
      else (case d of Delta v \<Rightarrow> [v] | _ \<Rightarrow> []), g)"

definition example_guide :: outcome_predictor where
  "example_guide =
     \<lparr>h1 = \<lparr>in_features = 51, out_features = 64,
            weight = replicate 64 (replicate 51 0), bias = replicate 64 1\<rparr>,
      h2 = \<lparr>in_features = 64, out_features = 64,
            weight = replicate 64 (replicate 64 0), bias = replicate 64 (- 1)\<rparr>,
      h3 = \<lparr>in_features = 64, out_features = 1,
            weight = [replicate 64 0], bias = [2]\<rparr>\<rparr>"

definition example_frame :: "(nat \<times> string) frame" where
  "example_frame =
     [((1976, ''Democrat''), [1]), ((1976, ''Republican''), [1]),
      ((1980, ''Democrat''), [1]), ((1980, ''Republican''), [1]),
      ((1984, ''Democrat''), [1]), ((1984, ''Republican''), [1]),
      ((1988, ''Democrat''), [1]), ((1988, ''Republican''), [1]),
      ((1992, ''Democrat''), [1]), ((1992, ''Republican''), [1]),
      ((1996, ''Democrat''), [1]), ((1996, ''Republican''), [1]),
      ((2000, ''Democrat''), [1]), ((2000, ''Republican''), [1]),
      ((2004, ''Democrat''), [1]), ((2004, ''Republican''), [1]),
      ((2008, ''Democrat''), [1]), ((2008, ''Republican''), [1]),
      ((2012, ''Democrat''), [2]), ((2012, ''Republican''), [1])]"

definition example_test_data :: "string frame" where
  "example_test_data = [(''Democrat'', [2, 1]), (''Republican'', [1, 1])]"

section \<open>Properties of the winner function\<close>

lemma to_float_cases: "to_float b = 0 \<or> to_float b = 1"
  by (simp add: to_float_def)

lemma dem_votes_same_length:
  "length alpha = length ec \<Longrightarrow>
   dem_electoral_college_votes ec alpha = Inr (map2 (*) ec (dem_win_state alpha))"
  by (simp add: dem_electoral_college_votes_def tensor_mul_def dem_win_state_def)

lemma election_winner_same_length:
  "length alpha = length ec \<Longrightarrow>
   election_winner ec alpha =
     Inr (to_float (quotient_gt
        (float_div (sum_list (map2 (*) ec (dem_win_state alpha))) (sum_list ec)) (1 / 2)))"
  by (simp add: election_winner_def dem_votes_same_length)

lemma quotient_half_not_gt: "\<not> quotient_gt (float_div (t / 2) t) (1 / 2)"
  by (cases "t = 0") (simp_all add: float_div_def)

lemma dem_win_state_update_nonpos:
  "i < length alpha \<Longrightarrow> alpha ! i = 0 \<Longrightarrow> c \<le> 0 \<Longrightarrow>
   dem_win_state (alpha[i := c]) = dem_win_state alpha"
  by (simp add: dem_win_state_def list_eq_iff_nth_eq nth_list_update to_float_def)

text \<open>
  C8. Both comparisons of \<open>election_winner\<close> are strict. For an \<open>alpha\<close> with one entry per
  state: a state whose entry is exactly 0 adds nothing to the Democrat electoral-college
  total, and the winner is the one obtained when that state's entry is any negative number
  (a Republican state); when the Democrat total is exactly half of the overall total the
  result is 0.0; and the result is always 0.0 or 1.0.
\<close>

theorem election_winner_strict:
  assumes len: "length alpha = length ec"
  shows "(\<forall>i < length alpha. alpha ! i = 0 \<longrightarrow>
            (\<exists>dem. dem_electoral_college_votes ec alpha = Inr dem \<and> dem ! i = 0) \<and>
            (\<forall>c \<le> 0. election_winner ec (alpha[i := c]) = election_winner ec alpha))
       \<and> (\<forall>dem. dem_electoral_college_votes ec alpha = Inr dem \<and>
                 sum_list dem = sum_list ec / 2 \<longrightarrow> election_winner ec alpha = Inr 0)
       \<and> (election_winner ec alpha = Inr 0 \<or> election_winner ec alpha = Inr 1)"
proof (intro conjI allI impI)
  fix i assume i: "i < length alpha" and z: "alpha ! i = 0"
  have "map2 (*) ec (dem_win_state alpha) ! i = 0"
    using i z len by (simp add: dem_win_state_def to_float_def)
  then show "\<exists>dem. dem_electoral_college_votes ec alpha = Inr dem \<and> dem ! i = 0"
    using len by (simp add: dem_votes_same_length)
next
  fix i c assume i: "i < length alpha" and z: "alpha ! i = 0" and c: "(c::real) \<le> 0"
  have "length (alpha[i := c]) = length ec" using len by simp
  then have "election_winner ec (alpha[i := c]) =
      Inr (to_float (quotient_gt
        (float_div (sum_list (map2 (*) ec (dem_win_state (alpha[i := c])))) (sum_list ec)) (1 / 2)))"
    by (rule election_winner_same_length)
  then show "election_winner ec (alpha[i := c]) = election_winner ec alpha"
    using len i z c
    by (simp add: election_winner_same_length dem_win_state_update_nonpos)
next
  fix dem
  assume "dem_electoral_college_votes ec alpha = Inr dem \<and> sum_list dem = sum_list ec / 2"
  then have d: "dem_electoral_college_votes ec alpha = Inr dem"
    and h: "sum_list dem = sum_list ec / 2" by simp_all
  have "\<not> quotient_gt (float_div (sum_list dem) (sum_list ec)) (1 / 2)"
    unfolding h by (rule quotient_half_not_gt)
  then show "election_winner ec alpha = Inr 0"
    by (simp add: election_winner_def d to_float_def)
next
  show "election_winner ec alpha = Inr 0 \<or> election_winner ec alpha = Inr 1"
    using len to_float_cases by (simp add: election_winner_same_length)
qed

theorem election_winner_strict_witness:
  "length [0, 1 :: real] = length [3, 3 :: real]
   \<and> [0, 1 :: real] ! 0 = 0
   \<and> dem_electoral_college_votes [3, 3] [0, 1] = Inr [0, 3]
   \<and> sum_list [0, 3 :: real] = sum_list [3, 3 :: real] / 2
   \<and> election_winner [3, 3] ([0, 1][0 := - 1]) = election_winner [3, 3] [0, 1]
   \<and> election_winner [3, 3] [0, 1] = Inr 0"
proof -
  have len: "length [0, 1 :: real] = length [3, 3 :: real]" by simp
  have dem: "dem_electoral_college_votes [3, 3] [0, 1] = Inr [0, 3]"
    by (simp add: dem_electoral_college_votes_def tensor_mul_def dem_win_state_def to_float_def)
  have half: "sum_list [0, 3 :: real] = sum_list [3, 3 :: real] / 2" by simp
  note strict = election_winner_strict [OF len]
  from strict have upd: "election_winner [3, 3] ([0, 1][0 := - 1]) = election_winner [3, 3] [0, 1]"
    by (simp del: list_update.simps)
  from strict dem half have "election_winner [3, 3] [0, 1] = Inr 0"
    by blast
  with len dem half upd show ?thesis by simp
qed

section \<open>The uniform allocation\<close>

text \<open>
  C10. The uniform strategy polls \<open>1000 div 51 = 19\<close> people in each of the 51 states, 969
  people in all, not 1000.
\<close>

theorem uniform_poll_total:
  "uniform_poll = replicate 51 19 \<and> length uniform_poll = 51
   \<and> sum_list uniform_poll = 969 \<and> sum_list uniform_poll \<noteq> 1000"
proof -
  have u: "uniform_poll = replicate 51 19"
    by (simp add: uniform_poll_def ones_def)
  have s: "sum_list (replicate 51 (19::real)) = 969"
    by (simp add: sum_list_replicate)
  have l: "length (replicate 51 (19::real)) = 51" by simp
  show ?thesis unfolding u using s l by simp
qed

section \<open>Properties of the prior\<close>

lemma log_ratio_nth:
  "length ds = length rs \<Longrightarrow> i < length ds \<Longrightarrow> log_ratio ds rs ! i = ln (ds ! i / rs ! i)"
  by (simp add: log_ratio_def)

lemma log_ratio_length: "length ds = length rs \<Longrightarrow> length (log_ratio ds rs) = length ds"
  by (simp add: log_ratio_def)

lemma idx_length: "length idx = 10"
  by (simp add: idx_def)

lemma idx_nth: "e < 10 \<Longrightarrow> idx ! e = 2 * e"
  by (simp add: idx_def)

lemma idx_bound: "k \<in> set idx \<Longrightarrow> k + 1 < 20"
  by (auto simp: idx_def)

lemma logits_success:
  assumes "20 \<le> length fr"
  shows "logits fr = Inr (map2 log_ratio (map (\<lambda>k. snd (fr ! k)) idx)
                                         (map (\<lambda>k. snd (fr ! (k + 1))) idx))"
proof -
  have a: "list_all (\<lambda>k. k < length fr) idx"
    using assms idx_bound by (fastforce simp: list_all_iff)
  have b: "list_all (\<lambda>k. k < length fr) (map (\<lambda>k. k + 1) idx)"
    using assms idx_bound by (fastforce simp: list_all_iff)
  show ?thesis
    unfolding logits_def tensor_columns_def using a b by (simp add: comp_def)
qed

lemma logits_rows:
  assumes "20 \<le> length fr" and "logits fr = Inr ls"
  shows "length ls = 10"
    and "e < 10 \<Longrightarrow> ls ! e = log_ratio (snd (fr ! (2 * e))) (snd (fr ! (2 * e + 1)))"
proof -
  have ls: "ls = map2 log_ratio (map (\<lambda>k. snd (fr ! k)) idx) (map (\<lambda>k. snd (fr ! (k + 1))) idx)"
    using logits_success [OF assms(1)] assms(2) by simp
  show "length ls = 10" by (simp add: ls idx_length)
  show "ls ! e = log_ratio (snd (fr ! (2 * e))) (snd (fr ! (2 * e + 1)))" if "e < 10"
    using that by (simp add: ls idx_length idx_nth)
qed

lemma centred_sum_zero:
  assumes "ls \<noteq> []"
  shows "(\<Sum>l\<leftarrow>ls. l ! j - empirical_mean ls j) = (0::real)"
proof -
  have n: "real (length ls) \<noteq> 0" using assms by simp
  have "(\<Sum>l\<leftarrow>ls. l ! j - empirical_mean ls j)
        = (\<Sum>l\<leftarrow>ls. l ! j) - real (length ls) * empirical_mean ls j"
    by (simp add: sum_list_subtractf sum_list_triv)
  also have "\<dots> = 0" using n by (simp add: empirical_mean_def)
  finally show ?thesis .
qed

lemma broadcast_covariance_sum:
  assumes "ls \<noteq> []"
  shows "(\<Sum>l\<leftarrow>ls. (l ! i - empirical_mean ls j) * (l ! j - empirical_mean ls j))
       = (\<Sum>l\<leftarrow>ls. (l ! i - empirical_mean ls i) * (l ! j - empirical_mean ls j))"
proof -
  let ?m = "empirical_mean ls"
  have "(\<Sum>l\<leftarrow>ls. (l ! i - ?m j) * (l ! j - ?m j))
      = (\<Sum>l\<leftarrow>ls. (l ! i - ?m i) * (l ! j - ?m j) + (?m i - ?m j) * (l ! j - ?m j))"
    by (intro arg_cong [where f = sum_list] map_cong refl) (simp add: algebra_simps)
  also have "\<dots> = (\<Sum>l\<leftarrow>ls. (l ! i - ?m i) * (l ! j - ?m j))
                 + (?m i - ?m j) * (\<Sum>l\<leftarrow>ls. l ! j - ?m j)"
    by (simp add: sum_list_addf sum_list_const_mult)
  also have "\<dots> = (\<Sum>l\<leftarrow>ls. (l ! i - ?m i) * (l ! j - ?m j))"
    by (simp add: centred_sum_zero [OF assms])
  finally show ?thesis .
qed

lemma tensor_mean0_nth: "j < row_length ls \<Longrightarrow> tensor_mean0 ls ! j = empirical_mean ls j"
  by (simp add: tensor_mean0_def empirical_mean_def)

lemma sample_covariance_shape:
  "length (sample_covariance ls) = row_length ls"
  "i < row_length ls \<Longrightarrow> length (sample_covariance ls ! i) = row_length ls"
  by (simp_all add: sample_covariance_def Let_def)

lemma sample_covariance_nth:
  assumes "ls \<noteq> []" and "i < row_length ls" and "j < row_length ls"
  shows "sample_covariance ls ! i ! j = empirical_covariance ls i j"
proof -
  have "sample_covariance ls ! i ! j =
      (1 / (real (length ls) - 1)) *
        (\<Sum>l\<leftarrow>ls. (l ! i - empirical_mean ls j) * (l ! j - empirical_mean ls j))"
    using assms by (simp add: sample_covariance_def Let_def tensor_mean0_nth)
  then show ?thesis
    by (simp add: broadcast_covariance_sum [OF assms(1)] empirical_covariance_def)
qed

lemma regularised_nth:
  assumes "length sc = n" and "i < n" and "j < n" and "length (sc ! i) = n"
  shows "matrix_add sc (matrix_scale (1 / 100) (eye (length sc))) ! i ! j
         = sc ! i ! j + (if i = j then 1 / 100 else 0)"
  using assms by (simp add: matrix_add_def matrix_scale_def eye_def)

lemma regularised_shape:
  assumes "length sc = n"
  shows "length (matrix_add sc (matrix_scale (1 / 100) (eye (length sc)))) = n"
  using assms by (simp add: matrix_add_def matrix_scale_def eye_def)

lemma regularised_row_length:
  assumes "length sc = n" and "i < n" and "length (sc ! i) = n"
  shows "length (matrix_add sc (matrix_scale (1 / 100) (eye (length sc))) ! i) = n"
  using assms by (simp add: matrix_add_def matrix_scale_def eye_def)

lemma prior_covariance_entries:
  assumes wide: "20 \<le> length fr" and ls: "logits fr = Inr ls" and rl: "row_length ls = n"
  shows "\<exists>pc. prior_covariance fr = Inr pc \<and> length pc = n
          \<and> (\<forall>i < n. length (pc ! i) = n
               \<and> (\<forall>j < n. pc ! i ! j = empirical_covariance ls i j + (if i = j then 1 / 100 else 0)))"
proof -
  let ?sc = "sample_covariance ls"
  let ?pc = "matrix_add ?sc (matrix_scale (1 / 100) (eye (length ?sc)))"
  have ne: "ls \<noteq> []" using logits_rows(1) [OF wide ls] by auto
  have l: "length ?sc = n" using rl by (simp add: sample_covariance_shape)
  have r: "length (?sc ! i) = n" if "i < n" for i
    using that rl by (simp add: sample_covariance_shape)
  have "prior_covariance fr = Inr ?pc" by (simp add: prior_covariance_def ls)
  moreover have "length ?pc = n" using l by (rule regularised_shape)
  moreover have "\<forall>i < n. length (?pc ! i) = n
               \<and> (\<forall>j < n. ?pc ! i ! j = empirical_covariance ls i j + (if i = j then 1 / 100 else 0))"
  proof (intro allI impI conjI)
    fix i assume i: "i < n"
    show "length (?pc ! i) = n" using l i r [OF i] by (rule regularised_row_length)
    fix j assume j: "j < n"
    have "?pc ! i ! j = ?sc ! i ! j + (if i = j then 1 / 100 else 0)"
      using l i j r [OF i] by (rule regularised_nth)
    then show "?pc ! i ! j = empirical_covariance ls i j + (if i = j then 1 / 100 else 0)"
      using sample_covariance_nth [OF ne, of i j] i j rl by simp
  qed
  ultimately show ?thesis by blast
qed

lemma row_length_logits:
  assumes wide: "20 \<le> length fr" and cols: "\<forall>c \<in> set fr. length (snd c) = n"
    and ls: "logits fr = Inr ls"
  shows "row_length ls = n"
proof -
  have len: "length ls = 10" using wide ls by (rule logits_rows(1))
  have "ls ! 0 = log_ratio (snd (fr ! (2 * 0))) (snd (fr ! (2 * 0 + 1)))"
    using wide ls by (rule logits_rows(2)) simp
  moreover have p0: "0 < length fr" and p1: "1 < length fr" using wide by linarith+
  have "fr ! 0 \<in> set fr" and "fr ! 1 \<in> set fr"
    using nth_mem [OF p0] nth_mem [OF p1] by blast+
  then have "length (snd (fr ! 0)) = n" "length (snd (fr ! 1)) = n"
    using cols by blast+
  ultimately have "length (ls ! 0) = n" by (simp add: log_ratio_length)
  moreover obtain l ls' where "ls = l # ls'" using len by (cases ls) auto
  ultimately show ?thesis by (simp add: row_length_def)
qed

lemma prior_mean_2012:
  assumes y12: "frame_year fr 2012 = Inr results_2012" and two: "2 \<le> length results_2012"
  shows "prior_mean fr = Inr (log_ratio (snd (results_2012 ! 0)) (snd (results_2012 ! 1)))"
proof -
  have "0 < length results_2012" and "1 < length results_2012" using two by linarith+
  then have "tensor_column results_2012 0 = Inr (snd (results_2012 ! 0))"
    and "tensor_column results_2012 1 = Inr (snd (results_2012 ! 1))"
    unfolding tensor_column_def by (simp_all only: if_True)
  then show ?thesis
    unfolding prior_mean_def y12 two_party_logits_def by simp
qed

lemma example_frame_length: "length example_frame = 20"
  by (simp add: example_frame_def)

lemma example_frame_cols: "\<forall>c \<in> set example_frame. length (snd c) = 1"
  by (simp add: example_frame_def)

lemma example_frame_pos: "\<forall>c \<in> set example_frame. \<forall>x \<in> set (snd c). 0 < x"
  by (simp add: example_frame_def)

lemma example_frame_2012:
  "frame_year example_frame 2012 = Inr [(''Democrat'', [2]), (''Republican'', [1])]"
  by (simp add: frame_year_def example_frame_def)

lemma example_prior_mean: "prior_mean example_frame = Inr [ln 2]"
  by (simp add: prior_mean_2012 [OF example_frame_2012] log_ratio_def)

lemma idx_explicit: "idx = [0, 2, 4, 6, 8, 10, 12, 14, 16, 18]"
  by (simp add: idx_def upt_conv_Cons)

lemma example_logits:
  "logits example_frame = Inr [[0], [0], [0], [0], [0], [0], [0], [0], [0], [ln 2]]"
  by (simp add: logits_def tensor_columns_def idx_explicit example_frame_def log_ratio_def)

lemma example_claimed_mean: "claimed_prior_mean example_frame = Inr [ln 2 / 10]"
  by (simp add: claimed_prior_mean_def example_logits row_length_def empirical_mean_def)

text \<open>
  C1, as the notebook computes it. For a historical frame of at least twenty columns of
  positive counts, one entry per state in each: \<open>prior_mean\<close> is the log-ratio of the first
  two columns of the year 2012 alone, not a mean over the elections; \<open>logits\<close> has ten rows,
  row \<open>e\<close> the log-ratio of the columns \<open>2 * e\<close> and \<open>2 * e + 1\<close>; and \<open>prior_covariance\<close> is
  the unbiased empirical covariance of these ten rows with 0.01 added to every diagonal
  entry. The broadcast product centres both factors at the mean of state \<open>j\<close>; the sum over
  the elections is the covariance all the same.
\<close>

theorem prior_mean_2012_covariance_regularised:
  assumes wide: "20 \<le> length fr"
    and cols: "\<forall>c \<in> set fr. length (snd c) = n"
    and pos: "\<forall>c \<in> set fr. \<forall>x \<in> set (snd c). 0 < x"
    and y12: "frame_year fr 2012 = Inr results_2012"
    and two: "2 \<le> length results_2012"
  shows "prior_mean fr = Inr (log_ratio (snd (results_2012 ! 0)) (snd (results_2012 ! 1)))
       \<and> (\<exists>ls pc. logits fr = Inr ls \<and> length ls = 10
             \<and> (\<forall>e < 10. ls ! e = log_ratio (snd (fr ! (2 * e))) (snd (fr ! (2 * e + 1))))
             \<and> prior_covariance fr = Inr pc \<and> length pc = n
             \<and> (\<forall>i < n. length (pc ! i) = n
                  \<and> (\<forall>j < n. pc ! i ! j =
                        empirical_covariance ls i j + (if i = j then 1 / 100 else 0))))"
proof -
  obtain ls where ls: "logits fr = Inr ls" using logits_success [OF wide] by blast
  have rl: "row_length ls = n" using wide cols ls by (rule row_length_logits)
  from prior_covariance_entries [OF wide ls rl] obtain pc where
    pc: "prior_covariance fr = Inr pc" "length pc = n"
      "\<forall>i < n. length (pc ! i) = n
          \<and> (\<forall>j < n. pc ! i ! j = empirical_covariance ls i j + (if i = j then 1 / 100 else 0))"
    by blast
  have rows: "\<forall>e < 10. ls ! e = log_ratio (snd (fr ! (2 * e))) (snd (fr ! (2 * e + 1)))"
    using logits_rows(2) [OF wide ls] by blast
  have "length ls = 10" using wide ls by (rule logits_rows(1))
  with ls pc rows prior_mean_2012 [OF y12 two] show ?thesis by blast
qed

theorem prior_mean_2012_covariance_regularised_witness:
  "20 \<le> length example_frame
   \<and> list_all (\<lambda>c. length (snd c) = 1 \<and> list_all (\<lambda>x. 0 < x) (snd c)) example_frame
   \<and> frame_year example_frame 2012 = Inr [(''Democrat'', [2]), (''Republican'', [1])]
   \<and> 2 \<le> length [(''Democrat'', [2::real]), (''Republican'', [1])]
   \<and> prior_mean example_frame = Inr [ln 2]
   \<and> (\<exists>ls pc. logits example_frame = Inr ls \<and> prior_covariance example_frame = Inr pc
        \<and> pc ! 0 ! 0 = empirical_covariance ls 0 0 + 1 / 100)"
proof -
  have wide: "20 \<le> length example_frame" by (simp add: example_frame_length)
  have two: "2 \<le> length [(''Democrat'', [2::real]), (''Republican'', [1])]" by simp
  from prior_mean_2012_covariance_regularised
         [OF wide example_frame_cols example_frame_pos example_frame_2012 two]
  have m: "prior_mean example_frame
            = Inr (log_ratio (snd ([(''Democrat'', [2::real]), (''Republican'', [1])] ! 0))
                             (snd ([(''Democrat'', [2::real]), (''Republican'', [1])] ! 1)))"
    and c: "\<exists>ls pc. logits example_frame = Inr ls \<and> prior_covariance example_frame = Inr pc
        \<and> pc ! 0 ! 0 = empirical_covariance ls 0 0 + 1 / 100"
    by auto
  from m have p: "prior_mean example_frame = Inr [ln 2]" by (simp add: log_ratio_def)
  have a: "list_all (\<lambda>c. length (snd c) = 1 \<and> list_all (\<lambda>x. 0 < x) (snd c)) example_frame"
    using example_frame_cols example_frame_pos by (simp add: list_all_iff)
  from wide a example_frame_2012 two p c show ?thesis by blast
qed

text \<open>
  C1 as stated fails: on ten elections in one state, nine of them tied and 2012 won two to
  one, the prior mean is \<open>ln 2\<close> and not the mean \<open>ln 2 / 10\<close> of the ten logits, and the
  prior covariance is not the sample covariance.
\<close>

theorem prior_not_sample_moments_counterexample:
  "prior_mean example_frame \<noteq> claimed_prior_mean example_frame
   \<and> prior_covariance example_frame \<noteq> claimed_prior_covariance example_frame"
proof
  have "ln (2::real) \<noteq> ln 2 / 10" by simp
  then show "prior_mean example_frame \<noteq> claimed_prior_mean example_frame"
    by (simp add: example_prior_mean example_claimed_mean)
next
  let ?ls = "[[0], [0], [0], [0], [0], [0], [0], [0], [0], [ln (2::real)]]"
  have wide: "20 \<le> length example_frame" by (simp add: example_frame_length)
  have rl: "row_length ?ls = 1" by (simp add: row_length_def)
  from prior_covariance_entries [OF wide example_logits rl] obtain pc where
    pc: "prior_covariance example_frame = Inr pc"
    and e: "pc ! 0 ! 0 = empirical_covariance ?ls 0 0 + 1 / 100"
    by auto
  have c: "claimed_prior_covariance example_frame = Inr [[empirical_covariance ?ls 0 0]]"
    by (simp add: claimed_prior_covariance_def example_logits rl)
  show "prior_covariance example_frame \<noteq> claimed_prior_covariance example_frame"
  proof
    assume "prior_covariance example_frame = claimed_prior_covariance example_frame"
    then have "pc = [[empirical_covariance ?ls 0 0]]" using pc c by simp
    with e show False by simp
  qed
qed

section \<open>Properties of the generative model\<close>

lemma election_winner_total:
  assumes "length alpha = length ec"
  shows "\<exists>w. election_winner ec alpha = Inr w"
  using assms by (simp add: election_winner_same_length)

lemma model_success:
  assumes a: "sample ''alpha'' (MultivariateNormal pm pc) g = (alpha, g1)"
    and y: "sample ''y'' (Binomial alloc alpha) g1 = (y, g2)"
    and bc: "broadcastable alloc alpha"
    and w: "election_winner ec alpha = Inr w"
  shows "model pm pc ec sample alloc g =
           Inr ((y, w, alpha),
                [(''alpha'', MultivariateNormal pm pc, alpha),
                 (''y'', Binomial alloc alpha, y),
                 (''w'', Delta w, fst (sample ''w'' (Delta w) g2))],
                snd (sample ''w'' (Delta w) g2))"
  using bc by (simp add: model_def a y w split: prod.splits)

lemma model_result:
  assumes "model pm pc ec sample alloc g = Inr ((y, w, alpha), t, g')"
  shows "election_winner ec alpha = Inr w \<and> (\<exists>v. t ! 2 = (''w'', Delta w, v))
       \<and> (\<exists>g0. sample ''alpha'' (MultivariateNormal pm pc) g = (alpha, g0))"
  using assms by (auto simp: model_def split: prod.splits sum.splits if_splits)

lemma example_winner: "election_winner [3, 4] [1 / 2, - 1] = Inr 0"
  by (simp add: election_winner_def dem_electoral_college_votes_def tensor_mul_def
      dem_win_state_def to_float_def float_div_def)

lemma example_model_run:
  assumes "length alloc = 2"
  shows "model pm pc [3, 4] (fixed_sample [1 / 2, - 1] y) alloc ()
         = Inr ((y, 0, [1 / 2, - 1]),
                [(''alpha'', MultivariateNormal pm pc, [1 / 2, - 1]),
                 (''y'', Binomial alloc [1 / 2, - 1], y),
                 (''w'', Delta 0, [0])], ())"
proof -
  have a: "fixed_sample [1 / 2, - 1] y ''alpha'' (MultivariateNormal pm pc) () = ([1 / 2, - 1], ())"
    by (simp add: fixed_sample_def)
  have b: "fixed_sample [1 / 2, - 1] y ''y'' (Binomial alloc [1 / 2, - 1]) () = (y, ())"
    by (simp add: fixed_sample_def)
  have c: "broadcastable alloc [1 / 2, - 1 :: real]" using assms by (simp add: broadcastable_def)
  have s: "fixed_sample [1 / 2, - 1] y ''w'' (Delta 0) () = ([0], ())"
    by (simp add: fixed_sample_def)
  show ?thesis
    using model_success [where sample = "fixed_sample [1 / 2, - 1] y" and g = "()"
        and ?g1.0 = "()" and ?g2.0 = "()", OF a b c example_winner]
    by (simp add: s)
qed

text \<open>
  C3. For an allocation with one entry per state, whatever the handler: the model takes
  \<open>alpha\<close> at the site \<open>alpha\<close> from the multivariate normal with mean \<open>prior_mean\<close> and
  covariance \<open>prior_covariance\<close>, the poll results at the site \<open>y\<close> from the binomials with
  the allocation as counts and \<open>alpha\<close> as logits (success probabilities \<open>sigmoid alpha\<close>),
  sets the winner to \<open>election_winner alpha\<close>, records it at the site \<open>w\<close> with a Delta
  distribution, and returns the poll results, the winner and \<open>alpha\<close>.
\<close>

theorem model_generative_structure:
  assumes a: "sample ''alpha'' (MultivariateNormal loc covariance_matrix) g = (alpha, g1)"
    and y: "sample ''y'' (Binomial polling_allocation alpha) g1 = (y, g2)"
    and la: "length alpha = length ec_votes_tensor"
    and lp: "length polling_allocation = length ec_votes_tensor"
  shows "\<exists>w. election_winner ec_votes_tensor alpha = Inr w
           \<and> model loc covariance_matrix ec_votes_tensor sample polling_allocation g =
               Inr ((y, w, alpha),
                    [(''alpha'', MultivariateNormal loc covariance_matrix, alpha),
                     (''y'', Binomial polling_allocation alpha, y),
                     (''w'', Delta w, fst (sample ''w'' (Delta w) g2))],
                    snd (sample ''w'' (Delta w) g2))
           \<and> binomial_probs (Binomial polling_allocation alpha) = map sigmoid alpha"
proof -
  from election_winner_total [OF la] obtain w where w: "election_winner ec_votes_tensor alpha = Inr w" ..
  have bc: "broadcastable polling_allocation alpha" using la lp by (simp add: broadcastable_def)
  from model_success [OF a y bc w] w show ?thesis by simp
qed

theorem model_generative_structure_witness:
  "fixed_sample [1 / 2, - 1] [6, 5] ''alpha'' (MultivariateNormal [0, 0] [[1, 0], [0, 1]]) ()
     = ([1 / 2, - 1], ())
   \<and> fixed_sample [1 / 2, - 1] [6, 5] ''y'' (Binomial [10, 20] [1 / 2, - 1]) () = ([6, 5], ())
   \<and> length [1 / 2, - 1 :: real] = length [3, 4 :: real]
   \<and> length [10, 20 :: real] = length [3, 4 :: real]
   \<and> model [0, 0] [[1, 0], [0, 1]] [3, 4] (fixed_sample [1 / 2, - 1] [6, 5]) [10, 20] ()
       = Inr (([6, 5], 0, [1 / 2, - 1]),
              [(''alpha'', MultivariateNormal [0, 0] [[1, 0], [0, 1]], [1 / 2, - 1]),
               (''y'', Binomial [10, 20] [1 / 2, - 1], [6, 5]),
               (''w'', Delta 0, [0])], ())"
proof -
  have a: "fixed_sample [1 / 2, - 1] [6, 5] ''alpha'' (MultivariateNormal [0, 0] [[1, 0], [0, 1]]) ()
     = ([1 / 2, - 1], ())" by (simp add: fixed_sample_def)
  have y: "fixed_sample [1 / 2, - 1] [6, 5] ''y'' (Binomial [10, 20] [1 / 2, - 1]) () = ([6, 5], ())"
    by (simp add: fixed_sample_def)
  have la: "length [1 / 2, - 1 :: real] = length [3, 4 :: real]" by simp
  have lp: "length [10, 20 :: real] = length [3, 4 :: real]" by simp
  have w: "election_winner [3, 4] [1 / 2, - 1] = Inr 0"
    by (simp add: election_winner_def dem_electoral_college_votes_def tensor_mul_def
        dem_win_state_def to_float_def float_div_def)
  have s: "fixed_sample [1 / 2, - 1] [6, 5] ''w'' (Delta 0) () = ([0], ())"
    by (simp add: fixed_sample_def)
  from model_generative_structure
         [where sample = "fixed_sample [1 / 2, - 1] [6, 5]" and g = "()" and ?g1.0 = "()"
            and ?g2.0 = "()", OF a y la lp] w
  have "model [0, 0] [[1, 0], [0, 1]] [3, 4] (fixed_sample [1 / 2, - 1] [6, 5]) [10, 20] ()
       = Inr (([6, 5], 0, [1 / 2, - 1]),
              [(''alpha'', MultivariateNormal [0, 0] [[1, 0], [0, 1]], [1 / 2, - 1]),
               (''y'', Binomial [10, 20] [1 / 2, - 1], [6, 5]),
               (''w'', Delta 0, fst (fixed_sample [1 / 2, - 1] [6, 5] ''w'' (Delta 0) ()))],
              snd (fixed_sample [1 / 2, - 1] [6, 5] ''w'' (Delta 0) ()))"
    by auto
  then show ?thesis unfolding s using a y by simp
qed

text \<open>
  C7. \<open>election_winner\<close> is a function of \<open>alpha\<close> (and of the electoral-college votes):
  two runs of the model, under any handlers, allocations and generator states, that have
  equal \<open>alpha\<close> return equal winners, and in each run the site \<open>w\<close> carries the Delta
  distribution at \<open>election_winner alpha\<close>.
\<close>

theorem winner_determined_by_alpha:
  assumes r1: "model pm pc ec sample alloc g = Inr ((y, w, alpha), t, g1)"
    and r2: "model pm pc ec sample' alloc' g' = Inr ((y', w', alpha'), t', g1')"
    and eq: "alpha = alpha'"
  shows "election_winner ec alpha = election_winner ec alpha'
       \<and> election_winner ec alpha = Inr w \<and> w = w'
       \<and> (\<exists>v. t ! 2 = (''w'', Delta w, v)) \<and> (\<exists>v. t' ! 2 = (''w'', Delta w', v))"
proof -
  from model_result [OF r1] have a: "election_winner ec alpha = Inr w"
    and b: "\<exists>v. t ! 2 = (''w'', Delta w, v)" by blast+
  from model_result [OF r2] have a': "election_winner ec alpha' = Inr w'"
    and b': "\<exists>v. t' ! 2 = (''w'', Delta w', v)" by blast+
  from a a' eq have "w = w'" by simp
  with a b b' eq show ?thesis by simp
qed

theorem winner_determined_by_alpha_witness:
  "model [0, 0] [[1, 0], [0, 1]] [3, 4] (fixed_sample [1 / 2, - 1] [6, 5]) [10, 20] ()
     = Inr (([6, 5], 0, [1 / 2, - 1]),
            [(''alpha'', MultivariateNormal [0, 0] [[1, 0], [0, 1]], [1 / 2, - 1]),
             (''y'', Binomial [10, 20] [1 / 2, - 1], [6, 5]),
             (''w'', Delta 0, [0])], ())
   \<and> model [0, 0] [[1, 0], [0, 1]] [3, 4] (fixed_sample [1 / 2, - 1] [3, 2]) [5, 5] ()
     = Inr (([3, 2], 0, [1 / 2, - 1]),
            [(''alpha'', MultivariateNormal [0, 0] [[1, 0], [0, 1]], [1 / 2, - 1]),
             (''y'', Binomial [5, 5] [1 / 2, - 1], [3, 2]),
             (''w'', Delta 0, [0])], ())
   \<and> election_winner [3, 4] [1 / 2, - 1] = Inr 0"
proof -
  have r1: "model [0, 0] [[1, 0], [0, 1]] [3, 4] (fixed_sample [1 / 2, - 1] [6, 5]) [10, 20] ()
     = Inr (([6, 5], 0, [1 / 2, - 1]),
            [(''alpha'', MultivariateNormal [0, 0] [[1, 0], [0, 1]], [1 / 2, - 1]),
             (''y'', Binomial [10, 20] [1 / 2, - 1], [6, 5]),
             (''w'', Delta 0, [0])], ())"
    by (rule example_model_run) simp
  have r2: "model [0, 0] [[1, 0], [0, 1]] [3, 4] (fixed_sample [1 / 2, - 1] [3, 2]) [5, 5] ()
     = Inr (([3, 2], 0, [1 / 2, - 1]),
            [(''alpha'', MultivariateNormal [0, 0] [[1, 0], [0, 1]], [1 / 2, - 1]),
             (''y'', Binomial [5, 5] [1 / 2, - 1], [3, 2]),
             (''w'', Delta 0, [0])], ())"
    by (rule example_model_run) simp
  from winner_determined_by_alpha [OF r1 r2 refl]
  have "election_winner [3, 4] [1 / 2, - 1] = Inr 0" by blast
  with r1 r2 show ?thesis by blast
qed

section \<open>Properties of the scoring loop\<close>

lemma apes_length: "length (apes est as g) = length as"
  by (induction as arbitrary: g) (auto split: prod.splits)

lemma scores_Nil: "scores est pe [] g = []"
  by (simp add: scores_def)

lemma scores_Cons:
  "est a False g = (v, g') \<Longrightarrow> scores est pe ((k, a) # xs) g = (k, pe - v) # scores est pe xs g'"
  by (simp add: scores_def)

lemma scores_keys: "map fst (scores est pe xs g) = map fst xs"
  by (simp add: scores_def apes_length)

lemma scores_length: "length (scores est pe xs g) = length xs"
  using scores_keys [of est pe xs g] by (metis length_map)

lemma loop_eigs:
  "eigs (foldl (loop_body est pe) st xs) = eigs st ++ map_of (rev (scores est pe xs (rng st)))"
proof (induction xs arbitrary: st)
  case Nil
  then show ?case by (simp add: scores_Nil)
next
  case (Cons x xs)
  obtain k a where x: "x = (k, a)" by (cases x)
  obtain v g' where e: "est a False (rng st) = (v, g')" by (cases "est a False (rng st)")
  define st' where "st' = loop_body est pe st x"
  have r: "rng st' = g'" and m: "eigs st' = (eigs st)(k \<mapsto> pe - v)"
    by (simp_all add: st'_def x e loop_body_def Let_def)
  have "eigs (foldl (loop_body est pe) st (x # xs)) = eigs (foldl (loop_body est pe) st' xs)"
    by (simp add: st'_def)
  also have "\<dots> = eigs st' ++ map_of (rev (scores est pe xs (rng st')))"
    by (rule Cons.IH)
  also have "\<dots> = eigs st ++ map_of (rev (scores est pe (x # xs) (rng st)))"
    by (simp add: r m x scores_Cons [of est a "rng st" v g', OF e])
  finally show ?case .
qed

lemma loop_best:
  "(best_strategy (foldl (loop_body est pe) st xs), best_eig (foldl (loop_body est pe) st xs))
     = pick (scores est pe xs (rng st)) (best_strategy st, best_eig st)"
proof (induction xs arbitrary: st)
  case Nil
  then show ?case by (simp add: scores_Nil)
next
  case (Cons x xs)
  obtain k a where x: "x = (k, a)" by (cases x)
  obtain v g' where e: "est a False (rng st) = (v, g')" by (cases "est a False (rng st)")
  define st' where "st' = loop_body est pe st x"
  have r: "rng st' = g'"
    and b: "(best_strategy st', best_eig st') =
            (if best_eig st < pe - v then (Some k, pe - v) else (best_strategy st, best_eig st))"
    by (simp_all add: st'_def x e loop_body_def Let_def)
  have "(best_strategy (foldl (loop_body est pe) st (x # xs)),
         best_eig (foldl (loop_body est pe) st (x # xs)))
      = (best_strategy (foldl (loop_body est pe) st' xs),
         best_eig (foldl (loop_body est pe) st' xs))"
    by (simp add: st'_def)
  also have "\<dots> = pick (scores est pe xs (rng st')) (best_strategy st', best_eig st')"
    by (rule Cons.IH)
  also have "\<dots> = pick (scores est pe (x # xs) (rng st)) (best_strategy st, best_eig st)"
    by (simp add: r b x scores_Cons [of est a "rng st" v g', OF e])
  finally show ?case .
qed

lemma pick_none: "\<forall>p \<in> set xs. snd p \<le> be \<Longrightarrow> pick xs (b, be) = (b, be)"
  by (induction xs) auto

lemma pick_first_max:
  "i < length xs \<Longrightarrow> be < snd (xs ! i) \<Longrightarrow> \<forall>k < length xs. snd (xs ! k) \<le> snd (xs ! i) \<Longrightarrow>
   \<forall>k < i. snd (xs ! k) < snd (xs ! i) \<Longrightarrow> pick xs (b, be) = (Some (fst (xs ! i)), snd (xs ! i))"
proof (induction xs arbitrary: i b be)
  case Nil
  then show ?case by simp
next
  case (Cons x xs)
  obtain k s where x: "x = (k, s)" by (cases x)
  show ?case
  proof (cases i)
    case 0
    have "\<forall>p \<in> set xs. snd p \<le> s"
    proof
      fix p assume "p \<in> set xs"
      then obtain j where "j < length xs" "xs ! j = p" by (auto simp: in_set_conv_nth)
      with Cons.prems(3) [rule_format, of "Suc j"] 0 x show "snd p \<le> s" by simp
    qed
    then have "pick xs (Some k, s) = (Some k, s)" by (rule pick_none)
    with Cons.prems(2) 0 x show ?thesis by simp
  next
    case (Suc j)
    have lt: "s < snd (xs ! j)" using Cons.prems(4) [rule_format, of 0] Suc x by simp
    have j: "j < length xs" using Cons.prems(1) Suc by simp
    have le: "\<forall>k < length xs. snd (xs ! k) \<le> snd (xs ! j)"
      using Cons.prems(3) Suc by auto
    have fl: "\<forall>k < j. snd (xs ! k) < snd (xs ! j)"
      using Cons.prems(4) Suc by auto
    have be: "be < snd (xs ! j)" using Cons.prems(2) Suc by simp
    show ?thesis
    proof (cases "be < s")
      case True
      then show ?thesis using Cons.IH [OF j lt le fl, of "Some k"] x Suc by simp
    next
      case False
      then show ?thesis using Cons.IH [OF j be le fl, of b] x Suc by simp
    qed
  qed
qed

lemma first_argmax:
  fixes f :: "nat \<Rightarrow> real"
  assumes "0 < n"
  shows "\<exists>i < n. (\<forall>k < n. f k \<le> f i) \<and> (\<forall>k < i. f k < f i)"
proof -
  define M where "M = Max (f ` {..<n})"
  have fin: "finite (f ` {..<n})" and ne: "f ` {..<n} \<noteq> {}" using assms by auto
  have "M \<in> f ` {..<n}" unfolding M_def using fin ne by (rule Max_in)
  then have ex: "\<exists>i. i < n \<and> f i = M" by auto
  define i where "i = (LEAST i. i < n \<and> f i = M)"
  have i: "i < n \<and> f i = M" unfolding i_def using ex by (rule LeastI_ex)
  have ub: "\<forall>k < n. f k \<le> M" unfolding M_def using fin by simp
  have "\<forall>k < i. f k < f i"
  proof (intro allI impI)
    fix k assume k: "k < i"
    then have "\<not> (k < n \<and> f k = M)" unfolding i_def by (rule not_less_Least)
    moreover have "k < n" using k i by simp
    ultimately have "f k \<noteq> M" by simp
    with ub \<open>k < n\<close> i show "f k < f i" by (simp add: less_le)
  qed
  with i ub show ?thesis by auto
qed

lemma eigs_final:
  assumes "distinct (map fst xs)"
  shows "eigs (evaluate_strategies est pe xs g) = map_of (scores est pe xs g)"
proof -
  have d: "distinct (map fst (scores est pe xs g))" using assms by (simp add: scores_keys)
  then have d': "distinct (map fst (rev (scores est pe xs g)))" by (simp add: rev_map [symmetric])
  have "map_of (rev (scores est pe xs g)) = map_of (scores est pe xs g)"
    using d d' by (simp add: map_of_inject_set)
  then show ?thesis
    by (simp add: evaluate_strategies_def loop_eigs initial_state_def)
qed

lemma best_final:
  "(best_strategy (evaluate_strategies est pe xs g), best_eig (evaluate_strategies est pe xs g))
     = pick (scores est pe xs g) (None, 0)"
  by (simp add: evaluate_strategies_def loop_best initial_state_def)

lemma scores_nth:
  "i < length xs \<Longrightarrow>
   scores est pe xs g ! i = (fst (xs ! i), pe - apes est (map snd xs) g ! i)"
  by (simp add: scores_def apes_length)

lemma eigs_nth:
  assumes "distinct (map fst xs)" and "i < length xs"
  shows "eigs (evaluate_strategies est pe xs g) (fst (xs ! i)) = Some (snd (scores est pe xs g ! i))"
proof -
  have d: "distinct (map fst (scores est pe xs g))" using assms by (simp add: scores_keys)
  have "scores est pe xs g ! i \<in> set (scores est pe xs g)"
    using assms(2) by (simp add: scores_length)
  moreover have "fst (scores est pe xs g ! i) = fst (xs ! i)"
    using assms(2) by (simp add: scores_nth)
  ultimately have "(fst (xs ! i), snd (scores est pe xs g ! i)) \<in> set (scores est pe xs g)"
    by (metis prod.collapse)
  with d show ?thesis by (simp add: eigs_final [OF assms(1)])
qed

lemma eigs_Some_index:
  assumes "distinct (map fst xs)" and "eigs (evaluate_strategies est pe xs g) s = Some w"
  shows "\<exists>k < length xs. fst (xs ! k) = s \<and> snd (scores est pe xs g ! k) = w"
proof -
  have "(s, w) \<in> set (scores est pe xs g)"
    using assms by (simp add: eigs_final map_of_SomeD)
  then obtain k where "k < length (scores est pe xs g)" "scores est pe xs g ! k = (s, w)"
    by (auto simp: in_set_conv_nth)
  then show ?thesis by (auto simp: scores_length scores_nth)
qed

lemma poll_strategies_distinct: "distinct (map fst (poll_strategies swing))"
  by (simp add: poll_strategies_def)

lemma poll_strategies_length: "length (poll_strategies swing) = 4"
  by (simp add: poll_strategies_def)

lemma replay_apes:
  "apes (replay_estimator [a, b, c, d]) (map snd (poll_strategies swing)) 0 = [a, b, c, d]"
  by (simp add: poll_strategies_def replay_estimator_def)

lemma constant_apes:
  "apes (constant_estimator v) (map snd (poll_strategies swing)) () = [v, v, v, v]"
  by (simp add: poll_strategies_def constant_estimator_def)

lemma replay_scores:
  "scores (replay_estimator [a, b, c, d]) pe (poll_strategies swing) 0 =
     [(''Florida'', pe - a), (''DC'', pe - b), (''Uniform'', pe - c), (''Swing'', pe - d)]"
  unfolding scores_def replay_apes by (simp add: poll_strategies_def)

lemma constant_scores:
  "scores (constant_estimator v) pe (poll_strategies swing) () =
     [(''Florida'', pe - v), (''DC'', pe - v), (''Uniform'', pe - v), (''Swing'', pe - v)]"
  unfolding scores_def constant_apes by (simp add: poll_strategies_def)

lemma replay_eigs:
  "eigs (evaluate_strategies (replay_estimator [a, b, c, d]) pe (poll_strategies swing) 0) =
     map_of [(''Florida'', pe - a), (''DC'', pe - b), (''Uniform'', pe - c), (''Swing'', pe - d)]"
  unfolding eigs_final [OF poll_strategies_distinct] replay_scores ..

lemma constant_eigs:
  "eigs (evaluate_strategies (constant_estimator v) pe (poll_strategies swing) ()) =
     map_of [(''Florida'', pe - v), (''DC'', pe - v), (''Uniform'', pe - v), (''Swing'', pe - v)]"
  unfolding eigs_final [OF poll_strategies_distinct] constant_scores ..

text \<open>
  C2, as the loop computes it. Over a dictionary of strategies (distinct keys): when some
  recorded score is greater than 0, \<open>best_strategy\<close> is a strategy whose recorded score is
  greater than or equal to every recorded score.
\<close>

theorem best_strategy_maximal:
  assumes dist: "distinct (map fst strategies)"
    and pos: "\<exists>s v. eigs (evaluate_strategies est pe strategies g) s = Some v \<and> 0 < v"
  shows "\<exists>b v. best_strategy (evaluate_strategies est pe strategies g) = Some b
           \<and> eigs (evaluate_strategies est pe strategies g) b = Some v
           \<and> (\<forall>s w. eigs (evaluate_strategies est pe strategies g) s = Some w \<longrightarrow> w \<le> v)"
proof -
  let ?st = "evaluate_strategies est pe strategies g"
  let ?sc = "scores est pe strategies g"
  let ?f = "\<lambda>k. snd (?sc ! k)"
  from pos obtain s v where sv: "eigs ?st s = Some v" and v: "0 < v" by blast
  from eigs_Some_index [OF dist sv] obtain k0 where k0: "k0 < length strategies" "?f k0 = v"
    by blast
  then have "0 < length strategies" by (cases strategies) simp_all
  from first_argmax [OF this, of ?f] obtain i where i: "i < length strategies"
    and mx: "\<forall>k < length strategies. ?f k \<le> ?f i" and fst: "\<forall>k < i. ?f k < ?f i" by blast
  have "v \<le> ?f i" using mx k0 by auto
  then have gt: "0 < ?f i" using v by simp
  have "pick ?sc (None, 0) = (Some (fst (?sc ! i)), ?f i)"
    using i gt mx fst by (intro pick_first_max) (simp_all add: scores_length)
  then have b: "best_strategy ?st = Some (fst (strategies ! i))"
    using best_final [of est pe strategies g] i by (simp add: scores_nth)
  have e: "eigs ?st (fst (strategies ! i)) = Some (?f i)"
    using dist i by (rule eigs_nth)
  have "\<forall>s w. eigs ?st s = Some w \<longrightarrow> w \<le> ?f i"
  proof (intro allI impI)
    fix s w assume "eigs ?st s = Some w"
    from eigs_Some_index [OF dist this] obtain k where "k < length strategies" "?f k = w" by blast
    with mx show "w \<le> ?f i" by auto
  qed
  with b e show ?thesis by blast
qed

theorem best_strategy_maximal_witness:
  "distinct (map fst (poll_strategies (ones 51)))
   \<and> eigs (evaluate_strategies (replay_estimator [3 / 10, 1 / 2, 1 / 10, 1 / 10]) (1 / 2)
        (poll_strategies (ones 51)) 0) ''Florida'' = Some (1 / 5)
   \<and> (0::real) < 1 / 5
   \<and> (\<exists>b v. best_strategy (evaluate_strategies (replay_estimator [3 / 10, 1 / 2, 1 / 10, 1 / 10]) (1 / 2)
                 (poll_strategies (ones 51)) 0) = Some b
           \<and> eigs (evaluate_strategies (replay_estimator [3 / 10, 1 / 2, 1 / 10, 1 / 10]) (1 / 2)
                 (poll_strategies (ones 51)) 0) b = Some v
           \<and> (\<forall>s w. eigs (evaluate_strategies (replay_estimator [3 / 10, 1 / 2, 1 / 10, 1 / 10]) (1 / 2)
                 (poll_strategies (ones 51)) 0) s = Some w \<longrightarrow> w \<le> v))"
proof -
  let ?st = "evaluate_strategies (replay_estimator [3 / 10, 1 / 2, 1 / 10, 1 / 10]) (1 / 2)
        (poll_strategies (ones 51)) 0"
  have d: "distinct (map fst (poll_strategies (ones 51)))" by (rule poll_strategies_distinct)
  have f: "eigs ?st ''Florida'' = Some (1 / 5)" unfolding replay_eigs by simp
  then have p: "\<exists>s v. eigs ?st s = Some v \<and> 0 < v" by (intro exI [of _ "''Florida''"] exI [of _ "1 / 5"]) simp
  from best_strategy_maximal [OF d p] d f show ?thesis by simp
qed

text \<open>
  C2 as stated fails: when the estimator returns the prior entropy for each of the four
  allocations, every score is 0, scores are recorded, and \<open>best_strategy\<close> is still \<open>None\<close>.
\<close>

theorem best_strategy_not_maximal_counterexample:
  "best_strategy (evaluate_strategies (constant_estimator (1 / 2)) (1 / 2) (poll_strategies (ones 51)) ()) = None
   \<and> eigs (evaluate_strategies (constant_estimator (1 / 2)) (1 / 2) (poll_strategies (ones 51)) ()) ''Florida'' = Some 0"
proof -
  have "pick (scores (constant_estimator (1 / 2)) (1 / 2) (poll_strategies (ones 51)) ()) (None, 0) = (None, 0)"
    unfolding constant_scores by simp
  then have b: "best_strategy (evaluate_strategies (constant_estimator (1 / 2)) (1 / 2) (poll_strategies (ones 51)) ()) = None"
    using best_final [of "constant_estimator (1 / 2)" "1 / 2" "poll_strategies (ones 51)" "()"] by simp
  have "eigs (evaluate_strategies (constant_estimator (1 / 2)) (1 / 2) (poll_strategies (ones 51)) ()) ''Florida'' = Some 0"
    unfolding eigs_final [OF poll_strategies_distinct] constant_scores by simp
  with b show ?thesis by simp
qed

text \<open>
  C4. For every strategy of the dictionary, the score recorded in \<open>eigs\<close> is the entropy of
  the Bernoulli distribution with the prior win probability, the same number for every
  strategy, minus the number the estimator returned for that strategy's allocation when
  called with \<^verbatim>\<open>eig=False\<close>.
\<close>

theorem recorded_eig_is_entropy_minus_ape:
  assumes "distinct (map fst strategies)"
  shows "\<forall>i < length strategies.
           eigs (evaluate_strategies est (bernoulli_entropy prior_w_prob) strategies g)
                (fst (strategies ! i))
           = Some (bernoulli_entropy prior_w_prob - apes est (map snd strategies) g ! i)"
  using assms by (simp add: eigs_nth scores_nth)

theorem recorded_eig_witness:
  "distinct (map fst (poll_strategies (ones 51)))
   \<and> (2::nat) < length (poll_strategies (ones 51))
   \<and> eigs (evaluate_strategies (replay_estimator [3 / 10, 1 / 2, 1 / 10, 1 / 10])
        (bernoulli_entropy (1 / 2)) (poll_strategies (ones 51)) 0) ''Uniform''
       = Some (bernoulli_entropy (1 / 2) - 1 / 10)"
proof -
  have d: "distinct (map fst (poll_strategies (ones 51)))" by (rule poll_strategies_distinct)
  have l: "(2::nat) < length (poll_strategies (ones 51))" by (simp add: poll_strategies_length)
  have k: "fst (poll_strategies (ones 51) ! 2) = ''Uniform''" by (simp add: poll_strategies_def)
  from recorded_eig_is_entropy_minus_ape [OF d, of "replay_estimator [3 / 10, 1 / 2, 1 / 10, 1 / 10]" "1 / 2" 0] l
  have "eigs (evaluate_strategies (replay_estimator [3 / 10, 1 / 2, 1 / 10, 1 / 10])
        (bernoulli_entropy (1 / 2)) (poll_strategies (ones 51)) 0) (fst (poll_strategies (ones 51) ! 2))
       = Some (bernoulli_entropy (1 / 2) - apes (replay_estimator [3 / 10, 1 / 2, 1 / 10, 1 / 10])
            (map snd (poll_strategies (ones 51))) 0 ! 2)"
    by blast
  then show ?thesis unfolding k replay_apes using d l by simp
qed

text \<open>
  C9. Over a dictionary of strategies (distinct keys): when no recorded score is greater
  than 0, \<open>best_strategy\<close> is \<open>None\<close> and looking it up in the dictionary raises a key error;
  and a strategy with a positive score that no strategy exceeds and no earlier strategy
  equals is the one selected, so of several strategies tied at the maximum the earliest
  wins.
\<close>

theorem no_positive_score_or_tie:
  assumes dist: "distinct (map fst strategies)"
  shows "((\<forall>s v. eigs (evaluate_strategies est pe strategies g) s = Some v \<longrightarrow> v \<le> 0) \<longrightarrow>
            best_strategy (evaluate_strategies est pe strategies g) = None
            \<and> best_allocation strategies (best_strategy (evaluate_strategies est pe strategies g))
                = Inl KeyError)
       \<and> (\<forall>i v. i < length strategies
              \<and> eigs (evaluate_strategies est pe strategies g) (fst (strategies ! i)) = Some v
              \<and> 0 < v
              \<and> (\<forall>k w. k < length strategies
                     \<and> eigs (evaluate_strategies est pe strategies g) (fst (strategies ! k)) = Some w
                     \<longrightarrow> w \<le> v \<and> (k < i \<longrightarrow> w < v))
              \<longrightarrow> best_strategy (evaluate_strategies est pe strategies g) = Some (fst (strategies ! i)))"
proof (intro conjI allI impI)
  let ?st = "evaluate_strategies est pe strategies g"
  let ?sc = "scores est pe strategies g"
  assume np: "\<forall>s v. eigs ?st s = Some v \<longrightarrow> v \<le> 0"
  have "\<forall>p \<in> set ?sc. snd p \<le> 0"
  proof
    fix p assume "p \<in> set ?sc"
    then obtain k where k: "k < length strategies" "?sc ! k = p"
      by (auto simp: in_set_conv_nth scores_length)
    then have "eigs ?st (fst (strategies ! k)) = Some (snd p)"
      using eigs_nth [OF dist, of k est pe g] by simp
    with np show "snd p \<le> 0" by blast
  qed
  then have "pick ?sc (None, 0) = (None, 0)" by (rule pick_none)
  then show n: "best_strategy ?st = None"
    using best_final [of est pe strategies g] by simp
  show "best_allocation strategies (best_strategy ?st) = Inl KeyError"
    by (simp add: n best_allocation_def)
next
  let ?st = "evaluate_strategies est pe strategies g"
  let ?sc = "scores est pe strategies g"
  let ?f = "\<lambda>k. snd (?sc ! k)"
  fix i v
  assume h: "i < length strategies \<and> eigs ?st (fst (strategies ! i)) = Some v \<and> 0 < v
     \<and> (\<forall>k w. k < length strategies \<and> eigs ?st (fst (strategies ! k)) = Some w
             \<longrightarrow> w \<le> v \<and> (k < i \<longrightarrow> w < v))"
  then have i: "i < length strategies" and v: "0 < v"
    and ev: "eigs ?st (fst (strategies ! i)) = Some v"
    and mx: "\<And>k w. k < length strategies \<Longrightarrow> eigs ?st (fst (strategies ! k)) = Some w
               \<Longrightarrow> w \<le> v \<and> (k < i \<longrightarrow> w < v)"
    by blast+
  have fi: "?f i = v" using eigs_nth [OF dist i, of est pe g] ev by simp
  have both: "?f k \<le> v \<and> (k < i \<longrightarrow> ?f k < v)" if "k < length strategies" for k
    using mx [OF that eigs_nth [OF dist that, of est pe g]] .
  have le: "\<forall>k < length ?sc. ?f k \<le> ?f i"
    using both by (simp add: fi scores_length)
  have lt: "\<forall>k < i. ?f k < ?f i"
    using both i by (simp add: fi)
  have "pick ?sc (None, 0) = (Some (fst (?sc ! i)), ?f i)"
    using i v le lt by (intro pick_first_max) (simp_all add: scores_length fi)
  then show "best_strategy ?st = Some (fst (strategies ! i))"
    using best_final [of est pe strategies g] i by (simp add: scores_nth)
qed

theorem no_positive_score_or_tie_witness:
  "distinct (map fst (poll_strategies (ones 51)))
   \<and> best_strategy (evaluate_strategies (constant_estimator (1 / 2)) (1 / 2) (poll_strategies (ones 51)) ()) = None
   \<and> best_allocation (poll_strategies (ones 51))
       (best_strategy (evaluate_strategies (constant_estimator (1 / 2)) (1 / 2) (poll_strategies (ones 51)) ()))
       = Inl KeyError
   \<and> eigs (evaluate_strategies (replay_estimator [3 / 10, 1 / 2, 1 / 10, 1 / 10]) (1 / 2)
        (poll_strategies (ones 51)) 0) ''Uniform'' = Some (2 / 5)
   \<and> eigs (evaluate_strategies (replay_estimator [3 / 10, 1 / 2, 1 / 10, 1 / 10]) (1 / 2)
        (poll_strategies (ones 51)) 0) ''Swing'' = Some (2 / 5)
   \<and> best_strategy (evaluate_strategies (replay_estimator [3 / 10, 1 / 2, 1 / 10, 1 / 10]) (1 / 2)
        (poll_strategies (ones 51)) 0) = Some ''Uniform''"
proof -
  let ?ps = "poll_strategies (ones 51)"
  let ?c = "evaluate_strategies (constant_estimator (1 / 2)) (1 / 2) ?ps ()"
  let ?r = "evaluate_strategies (replay_estimator [3 / 10, 1 / 2, 1 / 10, 1 / 10]) (1 / 2) ?ps 0"
  have d: "distinct (map fst ?ps)" by (rule poll_strategies_distinct)
  have np: "\<forall>s v. eigs ?c s = Some v \<longrightarrow> v \<le> 0"
    unfolding constant_eigs by (auto split: if_splits)
  from no_positive_score_or_tie [OF d, of "constant_estimator (1 / 2)" "1 / 2" "()"] np
  have n: "best_strategy ?c = None \<and> best_allocation ?ps (best_strategy ?c) = Inl KeyError"
    by blast
  have u: "eigs ?r ''Uniform'' = Some (2 / 5)" and s: "eigs ?r ''Swing'' = Some (2 / 5)"
    unfolding replay_eigs by simp_all
  have k: "fst (?ps ! 2) = ''Uniform''" by (simp add: poll_strategies_def)
  have mx: "\<forall>k w. k < length ?ps \<and> eigs ?r (fst (?ps ! k)) = Some w \<longrightarrow> w \<le> 2 / 5 \<and> (k < 2 \<longrightarrow> w < 2 / 5)"
  proof (intro allI impI)
    fix k w assume a: "k < length ?ps \<and> eigs ?r (fst (?ps ! k)) = Some w"
    then have "k < 4" by (simp add: poll_strategies_length)
    then consider "k = 0" | "k = 1" | "k = 2" | "k = 3" by linarith
    then show "w \<le> 2 / 5 \<and> (k < 2 \<longrightarrow> w < 2 / 5)"
      using a unfolding replay_eigs by cases (simp_all add: poll_strategies_def)
  qed
  have "2 < length ?ps \<and> eigs ?r (fst (?ps ! 2)) = Some (2 / 5) \<and> (0::real) < 2 / 5
     \<and> (\<forall>k w. k < length ?ps \<and> eigs ?r (fst (?ps ! k)) = Some w \<longrightarrow> w \<le> 2 / 5 \<and> (k < 2 \<longrightarrow> w < 2 / 5))"
    using mx u by (simp add: k poll_strategies_length)
  with no_positive_score_or_tie [OF d, of "replay_estimator [3 / 10, 1 / 2, 1 / 10, 1 / 10]" "1 / 2" 0]
  have "best_strategy ?r = Some (fst (?ps ! 2))" by blast
  then have b: "best_strategy ?r = Some ''Uniform''" by (simp only: k)
  from n d u s b show ?thesis by blast
qed

section \<open>Properties of the classifier\<close>

lemma dot_sum: "length xs = n \<Longrightarrow> length ys = n \<Longrightarrow> dot xs ys = (\<Sum>i < n. xs ! i * ys ! i)"
proof -
  assume a: "length xs = n" "length ys = n"
  have "dot xs ys = (\<Sum>i = 0..<length (map2 (*) xs ys). map2 (*) xs ys ! i)"
    unfolding dot_def by (rule sum_list_sum_nth)
  also have "\<dots> = (\<Sum>i < n. xs ! i * ys ! i)"
    using a by (intro sum.cong) (auto simp: lessThan_atLeast0)
  finally show ?thesis .
qed

lemma linear_apply_nth:
  assumes "linear_shape i o' l" and "length x = i"
  shows "\<exists>z. linear_apply l x = Inr z \<and> length z = o'
           \<and> (\<forall>k < o'. z ! k = bias l ! k + (\<Sum>j < i. weight l ! k ! j * x ! j))"
proof -
  let ?z = "map2 (\<lambda>row b. dot row x + b) (weight l) (bias l)"
  have sh: "in_features l = i" "length (weight l) = o'" "length (bias l) = o'"
    and rows: "\<forall>row \<in> set (weight l). length row = i"
    using assms(1) by (simp_all add: linear_shape_def list_all_iff)
  have "linear_apply l x = Inr ?z" using sh assms(2) by (simp add: linear_apply_def)
  moreover have "length ?z = o'" using sh by simp
  moreover have "\<forall>k < o'. ?z ! k = bias l ! k + (\<Sum>j < i. weight l ! k ! j * x ! j)"
  proof (intro allI impI)
    fix k assume k: "k < o'"
    then have "length (weight l ! k) = i" using rows sh by simp
    then have "dot (weight l ! k) x = (\<Sum>j < i. weight l ! k ! j * x ! j)"
      using assms(2) by (rule dot_sum)
    then show "?z ! k = bias l ! k + (\<Sum>j < i. weight l ! k ! j * x ! j)"
      using k sh by simp
  qed
  ultimately show ?thesis by blast
qed

lemma sigmoid_bounds: "0 < sigmoid x \<and> sigmoid x < 1"
proof -
  have "0 < exp (- x)" by simp
  then show ?thesis unfolding sigmoid_def by (simp add: field_simps add_pos_pos)
qed

lemma example_guide_init: "outcome_predictor_init example_guide"
  by (simp add: outcome_predictor_init_def example_guide_def linear_shape_def list_all_iff)

lemma example_guide_logit: "mlp_logit example_guide y = 2"
  by (simp add: mlp_logit_def example_guide_def)

text \<open>
  C5. For a classifier with the shapes of \<open>OutcomePredictor\<close> and poll results with one
  entry per state, \<open>compute_dem_probability\<close> returns the single logit of the 51-64-64-1
  rectifier network, and the reported posterior probability is the sigmoid of that logit,
  a number strictly between 0 and 1 that depends on the classifier and the poll results
  alone.
\<close>

theorem posterior_probability_is_sigmoid_of_network:
  assumes init: "outcome_predictor_init guide" and len: "length y = 51"
  shows "compute_dem_probability guide y = Inr [mlp_logit guide y]
       \<and> q_w guide y = Inr [sigmoid (mlp_logit guide y)]
       \<and> posterior_probability guide y = Inr (sigmoid (mlp_logit guide y))
       \<and> 0 < sigmoid (mlp_logit guide y) \<and> sigmoid (mlp_logit guide y) < 1"
proof -
  have s1: "linear_shape 51 64 (h1 guide)" and s2: "linear_shape 64 64 (h2 guide)"
    and s3: "linear_shape 64 1 (h3 guide)"
    using init by (simp_all add: outcome_predictor_init_def)
  from linear_apply_nth [OF s1 len] obtain z1 where
    z1: "linear_apply (h1 guide) y = Inr z1" "length z1 = 64"
    and v1: "\<forall>k < 64. z1 ! k = bias (h1 guide) ! k + (\<Sum>j < 51. weight (h1 guide) ! k ! j * y ! j)"
    by blast
  have l1: "length (map relu z1) = 64" using z1 by simp
  from linear_apply_nth [OF s2 l1] obtain z2 where
    z2: "linear_apply (h2 guide) (map relu z1) = Inr z2" "length z2 = 64"
    and v2: "\<forall>k < 64. z2 ! k = bias (h2 guide) ! k + (\<Sum>j < 64. weight (h2 guide) ! k ! j * map relu z1 ! j)"
    by blast
  have l2: "length (map relu z2) = 64" using z2 by simp
  from linear_apply_nth [OF s3 l2] obtain z3 where
    z3: "linear_apply (h3 guide) (map relu z2) = Inr z3" "length z3 = 1"
    and v3: "\<forall>k < 1. z3 ! k = bias (h3 guide) ! k + (\<Sum>j < 64. weight (h3 guide) ! k ! j * map relu z2 ! j)"
    by blast
  have r1: "map relu z1 ! j = max 0 (bias (h1 guide) ! j + (\<Sum>i < 51. weight (h1 guide) ! j ! i * y ! i))"
    if "j < 64" for j using that z1 v1 by (simp add: relu_def)
  have r2: "map relu z2 ! k = max 0 (bias (h2 guide) ! k + (\<Sum>j < 64. weight (h2 guide) ! k ! j *
      max 0 (bias (h1 guide) ! j + (\<Sum>i < 51. weight (h1 guide) ! j ! i * y ! i))))"
    if "k < 64" for k
  proof -
    have "z2 ! k = bias (h2 guide) ! k + (\<Sum>j < 64. weight (h2 guide) ! k ! j * map relu z1 ! j)"
      using v2 that by simp
    also have "(\<Sum>j < 64. weight (h2 guide) ! k ! j * map relu z1 ! j) =
       (\<Sum>j < 64. weight (h2 guide) ! k ! j *
          max 0 (bias (h1 guide) ! j + (\<Sum>i < 51. weight (h1 guide) ! j ! i * y ! i)))"
      by (intro sum.cong refl) (simp add: r1)
    finally show ?thesis using that z2 by (simp add: relu_def)
  qed
  have "z3 ! 0 = bias (h3 guide) ! 0 + (\<Sum>j < 64. weight (h3 guide) ! 0 ! j * map relu z2 ! j)"
    using v3 by simp
  also have "(\<Sum>j < 64. weight (h3 guide) ! 0 ! j * map relu z2 ! j) =
     (\<Sum>k < 64. weight (h3 guide) ! 0 ! k *
        max 0 (bias (h2 guide) ! k + (\<Sum>j < 64. weight (h2 guide) ! k ! j *
           max 0 (bias (h1 guide) ! j + (\<Sum>i < 51. weight (h1 guide) ! j ! i * y ! i)))))"
    by (intro sum.cong refl) (simp add: r2)
  finally have "z3 ! 0 = mlp_logit guide y" by (simp add: mlp_logit_def)
  moreover obtain a where "z3 = [a]" using z3(2) by (cases z3) auto
  ultimately have z3eq: "z3 = [mlp_logit guide y]" by simp
  have c: "compute_dem_probability guide y = Inr [mlp_logit guide y]"
    by (simp add: compute_dem_probability_def z1 z2 z3 z3eq)
  then have q: "q_w guide y = Inr [sigmoid (mlp_logit guide y)]" by (simp add: q_w_def)
  then have p: "posterior_probability guide y = Inr (sigmoid (mlp_logit guide y))"
    by (simp add: posterior_probability_def)
  from c q p sigmoid_bounds [of "mlp_logit guide y"] show ?thesis by simp
qed

theorem posterior_probability_witness:
  "outcome_predictor_init example_guide
   \<and> length (replicate 51 (19::real)) = 51
   \<and> posterior_probability example_guide (replicate 51 19) = Inr (sigmoid 2)"
proof -
  have l: "length (replicate 51 (19::real)) = 51" by simp
  from posterior_probability_is_sigmoid_of_network [OF example_guide_init l]
  have "posterior_probability example_guide (replicate 51 19)
        = Inr (sigmoid (mlp_logit example_guide (replicate 51 19)))" by blast
  then show ?thesis using example_guide_init l by (simp only: example_guide_logit simp_thms)
qed

section \<open>Properties of the simulated poll\<close>

lemma logit_share:
  assumes "0 < d" and "0 < r"
  shows "logit (d / (d + r)) = ln (d / r)"
proof -
  have s: "0 < d + r" using assms by simp
  have "1 - d / (d + r) = r / (d + r)" using s by (simp add: field_simps)
  then have "d / (d + r) / (1 - d / (d + r)) = d / (d + r) / (r / (d + r))" by simp
  also have "\<dots> = d / r" using s by simp
  finally have "d / (d + r) / (1 - d / (d + r)) = d / r" .
  then show ?thesis unfolding logit_def by (rule arg_cong)
qed

lemma sigmoid_log_ratio:
  assumes "0 < d" and "0 < r"
  shows "sigmoid (ln (d / r)) = d / (d + r)"
proof -
  have e: "exp (- ln (d / r)) = r / d" using assms by (simp add: exp_minus field_simps)
  have "1 + r / d = (d + r) / d" using assms by (simp add: field_simps)
  then show ?thesis unfolding sigmoid_def e by simp
qed

text \<open>
  C6. With positive 2016 counts, one per state, and a best allocation found in the
  dictionary: \<open>true_alpha\<close> is, state by state, the logarithm of Democrat over Republican
  votes, which is the logit of the Democrat share of the two-party vote (and whose sigmoid
  is that share); the simulated poll is a run of the model in which the site \<open>alpha\<close> has
  this value and the site \<open>y\<close> is drawn from the binomials with the best allocation as
  counts and \<open>true_alpha\<close> as logits.
\<close>

theorem simulated_poll_conditioned_on_2016:
  assumes c0: "tensor_column test_data 0 = Inr dem" and c1: "tensor_column test_data 1 = Inr rep"
    and l1: "length dem = length rep" and l2: "length rep = length ec"
    and pos: "\<forall>i < length dem. 0 < dem ! i \<and> 0 < rep ! i"
    and best: "best_allocation strategies best = Inr allocation"
    and l3: "length allocation = length ec"
    and y: "sample ''y'' (Binomial allocation (log_ratio dem rep)) g = (y, g1)"
  shows "true_alpha test_data = Inr (log_ratio dem rep)
       \<and> (\<forall>i < length dem.
             log_ratio dem rep ! i = ln (dem ! i / rep ! i)
           \<and> log_ratio dem rep ! i = logit (dem ! i / (dem ! i + rep ! i))
           \<and> sigmoid (log_ratio dem rep ! i) = dem ! i / (dem ! i + rep ! i))
       \<and> (\<exists>w t g'. simulated_poll pm pc ec strategies best test_data sample g
                      = Inr ((y, w, log_ratio dem rep), t, g')
                  \<and> t ! 0 = (''alpha'', MultivariateNormal pm pc, log_ratio dem rep)
                  \<and> t ! 1 = (''y'', Binomial allocation (log_ratio dem rep), y))"
proof -
  let ?ta = "log_ratio dem rep"
  let ?h = "condition [''alpha'' \<mapsto> ?ta] sample"
  have ta: "true_alpha test_data = Inr ?ta"
    unfolding true_alpha_def two_party_logits_def c0 c1 by simp
  have len: "length ?ta = length ec" using l1 l2 by (simp add: log_ratio_length)
  have pt: "log_ratio dem rep ! i = ln (dem ! i / rep ! i)
           \<and> log_ratio dem rep ! i = logit (dem ! i / (dem ! i + rep ! i))
           \<and> sigmoid (log_ratio dem rep ! i) = dem ! i / (dem ! i + rep ! i)"
    if "i < length dem" for i
    using that pos l1 by (simp add: log_ratio_nth logit_share sigmoid_log_ratio)
  have a: "?h ''alpha'' (MultivariateNormal pm pc) g = (?ta, g)"
    by (simp add: condition_def)
  have y': "?h ''y'' (Binomial allocation ?ta) g = (y, g1)"
    using y by (simp add: condition_def)
  from election_winner_total [OF len] obtain w where w: "election_winner ec ?ta = Inr w" ..
  have bc: "broadcastable allocation ?ta" using len l3 by (simp add: broadcastable_def)
  have "simulated_poll pm pc ec strategies best test_data sample g =
          model pm pc ec ?h allocation g"
    by (simp add: simulated_poll_def best ta conditioned_model_def)
  with model_success [of ?h pm pc g ?ta g allocation y g1 ec w, OF a y' bc w]
  have "\<exists>w t g'. simulated_poll pm pc ec strategies best test_data sample g
                      = Inr ((y, w, ?ta), t, g')
                  \<and> t ! 0 = (''alpha'', MultivariateNormal pm pc, ?ta)
                  \<and> t ! 1 = (''y'', Binomial allocation ?ta, y)"
    by simp
  with ta pt show ?thesis by blast
qed

theorem simulated_poll_witness:
  "tensor_column example_test_data 0 = Inr [2, 1]
   \<and> tensor_column example_test_data 1 = Inr [1, 1]
   \<and> best_allocation [(''Uniform'', [10, 20])] (Some ''Uniform'') = Inr [10, 20]
   \<and> true_alpha example_test_data = Inr [ln 2, 0]
   \<and> ln 2 = logit (2 / (2 + 1))
   \<and> (\<exists>w t g'. simulated_poll [0, 0] [[1, 0], [0, 1]] [3, 4] [(''Uniform'', [10, 20])]
          (Some ''Uniform'') example_test_data (fixed_sample [] [6, 5]) ()
            = Inr (([6, 5], w, [ln 2, 0]), t, g')
          \<and> t ! 1 = (''y'', Binomial [10, 20] [ln 2, 0], [6, 5]))"
proof -
  have c0: "tensor_column example_test_data 0 = Inr [2, 1]"
    and c1: "tensor_column example_test_data 1 = Inr [1, 1]"
    by (simp_all add: tensor_column_def example_test_data_def)
  have l1: "length [2, 1 :: real] = length [1, 1 :: real]"
    and l2: "length [1, 1 :: real] = length [3, 4 :: real]"
    and l3: "length [10, 20 :: real] = length [3, 4 :: real]" by simp_all
  have pos: "\<forall>i < length [2, 1 :: real]. 0 < [2, 1 :: real] ! i \<and> 0 < [1, 1 :: real] ! i"
    by (simp add: less_Suc_eq)
  have best: "best_allocation [(''Uniform'', [10, 20])] (Some ''Uniform'') = Inr [10, 20]"
    by (simp add: best_allocation_def)
  have lr: "log_ratio [2, 1] [1, 1] = [ln 2, 0]" by (simp add: log_ratio_def)
  have y: "fixed_sample [] [6, 5] ''y'' (Binomial [10, 20] (log_ratio [2, 1] [1, 1])) () = ([6, 5], ())"
    by (simp add: fixed_sample_def)
  note main = simulated_poll_conditioned_on_2016
      [where sample = "fixed_sample [] [6, 5]" and g = "()" and ?g1.0 = "()"
         and pm = "[0, 0]" and pc = "[[1, 0], [0, 1]]",
       OF c0 c1 l1 l2 pos best l3 y, unfolded lr]
  from main have ta: "true_alpha example_test_data = Inr [ln 2, 0]" by blast
  from main have "\<forall>i < length [2, 1 :: real]. [ln 2, 0] ! i
        = logit ([2, 1] ! i / ([2, 1] ! i + [1, 1 :: real] ! i))" by blast
  then have "0 < length [2, 1 :: real] \<longrightarrow>
      [ln 2, 0] ! 0 = logit ([2, 1] ! 0 / ([2, 1] ! 0 + [1, 1 :: real] ! 0))" by (rule spec)
  then have lg: "ln 2 = logit (2 / (2 + 1))" by simp
  from main have ex: "\<exists>w t g'. simulated_poll [0, 0] [[1, 0], [0, 1]] [3, 4] [(''Uniform'', [10, 20])]
          (Some ''Uniform'') example_test_data (fixed_sample [] [6, 5]) ()
            = Inr (([6, 5], w, [ln 2, 0]), t, g')
          \<and> t ! 1 = (''y'', Binomial [10, 20] [ln 2, 0], [6, 5])" by blast
  from c0 c1 best ta lg ex show ?thesis by blast
qed

end
